theory Spec2Isabelle
  imports Complex_Main "HOL-Library.Sublist"
begin

section \<open>JavaScript values of the request body and of the probe output\<close>

text \<open>
  The server reads its input through \<open>express.json()\<close>, so every field of the request
  body is a JSON value, or \<open>undefined\<close> when the field is absent. A thrown value is an
  \<open>Error\<close> object, of which the handler only reads \<open>name\<close> and \<open>message\<close>.
  Numbers are IEEE doubles: the model keeps the three non-finite values apart and takes the
  finite ones as rationals (every finite double is one), which is all that
  \<open>Number.isFinite(x) && x > 0\<close> reads. Strings are lists of characters with code
  points below 256.
\<close>

datatype exn = Exn (ename: string) (emessage: string)

datatype jsnum = NaN | PosInf | NegInf | Fin rat

datatype jsval =
    JUndef
  | JNull
  | JBool bool
  | JNum jsnum
  | JStr string
  | JArr "jsval list"
  | JObj "(string \<times> jsval) list"

text \<open>\<open>Number.isFinite(x)\<close> and \<open>x > 0\<close> on numbers.\<close>

fun isFinite :: "jsnum \<Rightarrow> bool" where
  "isFinite (Fin r) = True"
| "isFinite NaN = False"
| "isFinite PosInf = False"
| "isFinite NegInf = False"

fun gt0 :: "jsnum \<Rightarrow> bool" where
  "gt0 (Fin r) = (0 < r)"
| "gt0 PosInf = True"
| "gt0 NaN = False"
| "gt0 NegInf = False"

text \<open>Truthiness, as \<open>!x\<close> and \<open>x || y\<close> test it.\<close>

fun truthy :: "jsval \<Rightarrow> bool" where
  "truthy JUndef = False"
| "truthy JNull = False"
| "truthy (JBool b) = b"
| "truthy (JNum n) = (n \<noteq> NaN \<and> n \<noteq> Fin 0)"
| "truthy (JStr s) = (s \<noteq> [])"
| "truthy (JArr xs) = True"
| "truthy (JObj kvs) = True"

subsection \<open>Conversion to string\<close>

text \<open>A string between double quotes.\<close>

definition quoted :: "string \<Rightarrow> string" where
  "quoted s = [CHR 0x22] @ s @ [CHR 0x22]"

definition digit_char :: "nat \<Rightarrow> char" where
  "digit_char d = ''0123456789'' ! d"

fun digits10 :: "nat \<Rightarrow> string" where
  "digits10 n = (if n < 10 then [digit_char n] else digits10 (n div 10) @ [digit_char (n mod 10)])"

declare digits10.simps [simp del]

definition is_safe_integer :: "rat \<Rightarrow> bool" where
  "is_safe_integer r = (of_int \<lfloor>r\<rfloor> = r \<and> \<bar>r\<bar> < 2 ^ 53)"

text \<open>
  \<open>Number::toString\<close>. An integer of magnitude below \<open>2^53\<close> prints as its decimal
  digits; the shortest round-trip digits of any other finite double are left to the
  parameter \<open>fmt\<close>.
\<close>

definition NumberToString :: "(rat \<Rightarrow> string) \<Rightarrow> jsnum \<Rightarrow> string" where
  "NumberToString fmt n =
     (case n of
        NaN \<Rightarrow> ''NaN''
      | PosInf \<Rightarrow> ''Infinity''
      | NegInf \<Rightarrow> ''-Infinity''
      | Fin r \<Rightarrow>
          if is_safe_integer r
          then (if r < 0 then ''-'' @ digits10 (nat (- \<lfloor>r\<rfloor>)) else digits10 (nat \<lfloor>r\<rfloor>))
          else fmt r)"

fun join_results :: "(exn + string) list \<Rightarrow> exn + string" where
  "join_results [] = Inr []"
| "join_results [x] = x"
| "join_results (x # y # zs) =
     (case x of
        Inl e \<Rightarrow> Inl e
      | Inr s \<Rightarrow> (case join_results (y # zs) of Inl e \<Rightarrow> Inl e | Inr t \<Rightarrow> Inr (s @ '','' @ t)))"

text \<open>
  \<open>ToString\<close>, as a template literal applies it. An object that came out of
  \<open>JSON.parse\<close> has only data properties, none callable: with an own \<open>toString\<close> key
  neither \<open>toString\<close> nor \<open>valueOf\<close> yields a primitive and the conversion throws a
  TypeError; without one, \<open>Object.prototype.toString\<close> answers. An array joins its
  elements with commas, \<open>null\<close> and \<open>undefined\<close> elements printing as the empty string.
\<close>

fun ToString :: "(rat \<Rightarrow> string) \<Rightarrow> jsval \<Rightarrow> exn + string" where
  "ToString fmt JUndef = Inr ''undefined''"
| "ToString fmt JNull = Inr ''null''"
| "ToString fmt (JBool b) = Inr (if b then ''true'' else ''false'')"
| "ToString fmt (JNum n) = Inr (NumberToString fmt n)"
| "ToString fmt (JStr s) = Inr s"
| "ToString fmt (JObj kvs) =
     (if ''toString'' \<in> fst ` set kvs
      then Inl (Exn ''TypeError'' ''Cannot convert object to primitive value'')
      else Inr ''[object Object]'')"
| "ToString fmt (JArr xs) =
     join_results
       (map (\<lambda>x. case x of JUndef \<Rightarrow> Inr [] | JNull \<Rightarrow> Inr [] | _ \<Rightarrow> ToString fmt x) xs)"

subsection \<open>Conversion to number\<close>

text \<open>
  \<open>Number(v)\<close>. Parsing a string (\<open>StringToNumber\<close>) is the parameter \<open>parse\<close>; an
  object or array is first converted to a primitive, which for JSON data is its string.
\<close>

fun ToNumber :: "(string \<Rightarrow> jsnum) \<Rightarrow> (rat \<Rightarrow> string) \<Rightarrow> jsval \<Rightarrow> exn + jsnum" where
  "ToNumber parse fmt JUndef = Inr NaN"
| "ToNumber parse fmt JNull = Inr (Fin 0)"
| "ToNumber parse fmt (JBool b) = Inr (Fin (if b then 1 else 0))"
| "ToNumber parse fmt (JNum n) = Inr n"
| "ToNumber parse fmt (JStr s) = Inr (parse s)"
| "ToNumber parse fmt v =
     (case ToString fmt v of Inl e \<Rightarrow> Inl e | Inr s \<Rightarrow> Inr (parse s))"

subsection \<open>String.prototype.toLowerCase\<close>

definition lower_char :: "char \<Rightarrow> char" where
  "lower_char c =
     (let n = (of_char c :: nat)
      in if (65 \<le> n \<and> n \<le> 90) \<or> (192 \<le> n \<and> n \<le> 222 \<and> n \<noteq> 215)
         then char_of (n + 32) else c)"

definition toLowerCase :: "string \<Rightarrow> string" where
  "toLowerCase s = map lower_char s"

section \<open>Paths: \<open>path.join\<close>\<close>

text \<open>
  \<open>path.join(a, b)\<close> of Node's posix \<open>path\<close> module joins its non-empty arguments
  with a slash and normalises the result: empty and \<open>.\<close> segments are dropped, a
  \<open>..\<close> segment removes the segment before it (at the root of an absolute path it
  is dropped, at the start of a relative one it is kept), a trailing slash is kept.
\<close>

fun split_sep :: "char \<Rightarrow> string \<Rightarrow> string list" where
  "split_sep c [] = [[]]"
| "split_sep c (x # xs) =
     (if x = c then [] # split_sep c xs
      else (case split_sep c xs of [] \<Rightarrow> [[x]] | s # ss \<Rightarrow> (x # s) # ss))"

fun join_sep :: "string \<Rightarrow> string list \<Rightarrow> string" where
  "join_sep sep [] = []"
| "join_sep sep [s] = s"
| "join_sep sep (s # t # ss) = s @ sep @ join_sep sep (t # ss)"

text \<open>The segments kept so far are held last first.\<close>

fun normalizeSegments :: "bool \<Rightarrow> string list \<Rightarrow> string list \<Rightarrow> string list" where
  "normalizeSegments up st [] = st"
| "normalizeSegments up st (seg # rest) =
     (if seg = [] \<or> seg = ''.'' then normalizeSegments up st rest
      else if seg = ''..'' then
        (case st of
           [] \<Rightarrow> normalizeSegments up (if up then [''..''] else []) rest
         | t # st' \<Rightarrow>
             if t = ''..'' then normalizeSegments up (if up then seg # st else st) rest
             else normalizeSegments up st' rest)
      else normalizeSegments up (seg # st) rest)"

definition path_normalize :: "string \<Rightarrow> string" where
  "path_normalize p =
     (if p = [] then ''.''
      else
        let isAbsolute = (hd p = CHR ''/'');
            trailing = (last p = CHR ''/'');
            body = join_sep ''/'' (rev (normalizeSegments (\<not> isAbsolute) [] (split_sep CHR ''/'' p)))
        in if body = [] then (if isAbsolute then ''/'' else if trailing then ''./'' else ''.'')
           else (if isAbsolute then ''/'' else []) @ body @ (if trailing then ''/'' else []))"

definition path_join :: "string \<Rightarrow> string \<Rightarrow> string" where
  "path_join a b =
     (if a = [] \<and> b = [] then ''.''
      else if a = [] then path_normalize b
      else if b = [] then path_normalize a
      else path_normalize (a @ ''/'' @ b))"

section \<open>The environment and the effects of a request\<close>

text \<open>
  Everything outside the process is a field of the environment: the \<open>BUCKET\<close> variable,
  the two conversions the JavaScript engine supplies, \<open>JSON.parse\<close>, the clock, and the
  outcome of each call to the file system, the subprocesses, the Drive API and the object
  store (an \<open>exn\<close> when the call throws or its promise rejects).
\<close>

datatype stream_event =
    SrcData string
  | SrcEnd
  | SrcError exn
  | DestFinish
  | DestError exn

record env =
  BUCKET :: "string option"
  StringToNumber :: "string \<Rightarrow> jsnum"
  NumberToString_other :: "rat \<Rightarrow> string"
  JSON_parse :: "string \<Rightarrow> exn + jsval"
  now_start :: int
  now_sign :: int
  now_end :: int
  mkdirSync_result :: "string \<Rightarrow> exn option"
  rmSync_result :: "string \<Rightarrow> exn option"
  statSync_size :: "string \<Rightarrow> exn + nat"
  execSync_result :: "string \<Rightarrow> exn + string"
  execFileSync_result :: "string \<Rightarrow> string list \<Rightarrow> exn option"
  drive_files_get :: "jsval \<Rightarrow> exn + stream_event list"
  upload_result :: "string \<Rightarrow> string \<Rightarrow> string \<Rightarrow> exn option"
  getSignedUrl_result :: "string \<Rightarrow> string \<Rightarrow> int \<Rightarrow> exn + string"

record meta =
  meta_format :: string
  inputBytes :: nat
  audioBytes :: nat
  durationSec :: "jsnum option"
  elapsedMs :: int
  bucket :: "string option"
  meta_destination :: string

datatype body =
    ErrorBody string
  | ResultBody jsval string meta

text \<open>
  The effects, in the order the process performs them. \<open>ExecShell\<close> is
  \<open>execSync(command)\<close>, which hands the command line to a shell; \<open>ExecFile\<close> is
  \<open>execFileSync(file, args)\<close>, which starts the program with the argument vector as it
  is. \<open>WriteFile p cs\<close> records the chunks that reached the write stream on \<open>p\<close>.
\<close>

datatype event =
    Mkdir string
  | DriveGet jsval
  | WriteFile string "string list"
  | Stat string
  | ExecShell string
  | ExecFile string "string list"
  | Upload string string string
  | SignUrl string string int
  | Rm string
  | LogError exn
  | Respond nat body

text \<open>
  A computation yields a value, throws (a rejected promise, for an async function), or
  waits for a promise that is never settled; in each case with the effects so far.
\<close>

datatype 'a result = Value 'a | Throw exn | Pending

type_synonym 'a comp = "'a result \<times> event list"

definition ret :: "'a \<Rightarrow> 'a comp" where
  "ret a = (Value a, [])"

definition throw :: "exn \<Rightarrow> 'a comp" where
  "throw e = (Throw e, [])"

definition emit :: "event \<Rightarrow> unit comp" where
  "emit ev = (Value (), [ev])"

definition lift :: "exn + 'a \<Rightarrow> 'a comp" where
  "lift x = (case x of Inl e \<Rightarrow> throw e | Inr a \<Rightarrow> ret a)"

definition fail_if :: "exn option \<Rightarrow> unit comp" where
  "fail_if x = (case x of Some e \<Rightarrow> throw e | None \<Rightarrow> ret ())"

definition bind :: "'a comp \<Rightarrow> ('a \<Rightarrow> 'b comp) \<Rightarrow> 'b comp" where
  "bind m f =
     (case m of
        (Value a, tr) \<Rightarrow> (case f a of (r, tr') \<Rightarrow> (r, tr @ tr'))
      | (Throw e, tr) \<Rightarrow> (Throw e, tr)
      | (Pending, tr) \<Rightarrow> (Pending, tr))"

text \<open>\<open>try { m } catch (err) { h err }\<close> and \<open>try { m } finally { fin }\<close>.\<close>

definition try_catch :: "'a comp \<Rightarrow> (exn \<Rightarrow> 'a comp) \<Rightarrow> 'a comp" where
  "try_catch m h =
     (case m of
        (Throw e, tr) \<Rightarrow> (case h e of (r, tr') \<Rightarrow> (r, tr @ tr'))
      | (r, tr) \<Rightarrow> (r, tr))"

definition try_finally :: "'a comp \<Rightarrow> unit comp \<Rightarrow> 'a comp" where
  "try_finally m fin =
     (case m of
        (Pending, tr) \<Rightarrow> (Pending, tr)
      | (r, tr) \<Rightarrow>
          (case fin of
             (Value u, tr') \<Rightarrow> (r, tr @ tr')
           | (Throw e, tr') \<Rightarrow> (Throw e, tr @ tr')
           | (Pending, tr') \<Rightarrow> (Pending, tr @ tr')))"

section \<open>The helpers of the server\<close>

text \<open>\<open>safeMkdir(p)\<close>: \<open>fs.mkdirSync(p, { recursive: true })\<close>, not guarded.\<close>

definition safeMkdir :: "env \<Rightarrow> string \<Rightarrow> unit comp" where
  "safeMkdir E p = bind (emit (Mkdir p)) (\<lambda>_. fail_if (mkdirSync_result E p))"

text \<open>
  \<open>safeRmdir(p)\<close>: \<open>fs.rmSync(p, { recursive: true, force: true })\<close> inside
  \<open>try { } catch {}\<close>.
\<close>

definition safeRmdir :: "env \<Rightarrow> string \<Rightarrow> unit comp" where
  "safeRmdir E p =
     try_catch (bind (emit (Rm p)) (\<lambda>_. fail_if (rmSync_result E p))) (\<lambda>_. ret ())"

definition statSync :: "env \<Rightarrow> string \<Rightarrow> nat comp" where
  "statSync E p = bind (emit (Stat p)) (\<lambda>_. lift (statSync_size E p))"

subsection \<open>The duration probe\<close>

definition ffprobe_command :: "string \<Rightarrow> string" where
  "ffprobe_command filePath =
     ''ffprobe -v error -print_format json -show_format -show_streams '' @
     [CHR 0x22] @ filePath @ [CHR 0x22]"

definition ffprobeJson :: "env \<Rightarrow> string \<Rightarrow> jsval comp" where
  "ffprobeJson E filePath =
     bind (emit (ExecShell (ffprobe_command filePath)))
       (\<lambda>_. bind (lift (execSync_result E (ffprobe_command filePath)))
         (\<lambda>out. lift (JSON_parse E out)))"

text \<open>
  \<open>v?.k\<close> for the keys \<open>format\<close> and \<open>duration\<close>, which no built-in prototype
  defines: the own property of an object, \<open>undefined\<close> for anything else.
\<close>

definition optional_get :: "jsval \<Rightarrow> string \<Rightarrow> jsval" where
  "optional_get v k =
     (case v of
        JObj kvs \<Rightarrow> (case map_of kvs k of Some x \<Rightarrow> x | None \<Rightarrow> JUndef)
      | _ \<Rightarrow> JUndef)"

definition getDurationSeconds :: "env \<Rightarrow> string \<Rightarrow> (jsnum option) comp" where
  "getDurationSeconds E filePath =
     try_catch
       (bind (ffprobeJson E filePath)
         (\<lambda>info. bind (lift (ToNumber (StringToNumber E) (NumberToString_other E)
                               (optional_get (optional_get info ''format'') ''duration'')))
           (\<lambda>d. ret (if isFinite d then Some d else None))))
       (\<lambda>_. ret None)"

subsection \<open>The download\<close>

text \<open>
  The promise of \<open>downloadDriveFile\<close> has two listeners, both on the write stream
  \<open>dest\<close>: \<open>finish\<close> resolves it and \<open>error\<close> rejects it. \<open>response.data.pipe(dest)\<close>
  writes each chunk of the source to \<open>dest\<close> and ends \<open>dest\<close> when the source ends;
  \<open>dest\<close> emits \<open>finish\<close> only after it was ended and has flushed. An error of the
  source stream closes nothing and reaches no listener of this code, so the promise is
  left as it is. \<open>pipe_run ended written evs\<close> runs the stream events \<open>evs\<close> in order.
\<close>

datatype promise = Fulfilled | Rejected exn | Unsettled

fun pipe_run :: "bool \<Rightarrow> string list \<Rightarrow> stream_event list \<Rightarrow> promise \<times> string list" where
  "pipe_run ended written [] = (Unsettled, written)"
| "pipe_run ended written (SrcData c # evs) =
     pipe_run ended (if ended then written else written @ [c]) evs"
| "pipe_run ended written (SrcEnd # evs) = pipe_run True written evs"
| "pipe_run ended written (DestFinish # evs) =
     (if ended then (Fulfilled, written) else pipe_run ended written evs)"
| "pipe_run ended written (DestError e # evs) = (Rejected e, written)"
| "pipe_run ended written (SrcError e # evs) = (Unsettled, written)"

definition downloadDriveFile :: "env \<Rightarrow> jsval \<Rightarrow> string \<Rightarrow> unit comp" where
  "downloadDriveFile E fileId outputPath =
     bind (emit (DriveGet fileId))
       (\<lambda>_. bind (lift (drive_files_get E fileId))
         (\<lambda>evs. case pipe_run False [] evs of
                  (st, written) \<Rightarrow>
                    bind (emit (WriteFile outputPath written))
                      (\<lambda>_. case st of
                              Fulfilled \<Rightarrow> ret ()
                            | Rejected e \<Rightarrow> throw e
                            | Unsettled \<Rightarrow> (Pending, []))))"

subsection \<open>Upload and signed URL\<close>

definition uploadAndSign :: "env \<Rightarrow> string \<Rightarrow> string \<Rightarrow> string comp" where
  "uploadAndSign E localPath destination =
     (case BUCKET E of
        None \<Rightarrow> throw (Exn ''Error'' ''Missing BUCKET env var'')
      | Some b \<Rightarrow>
          if b = [] then throw (Exn ''Error'' ''Missing BUCKET env var'')
          else
            bind (emit (Upload b localPath destination))
              (\<lambda>_. bind (fail_if (upload_result E b localPath destination))
                (\<lambda>_. bind (emit (SignUrl b destination (now_sign E + 60 * 60 * 1000)))
                  (\<lambda>_. lift (getSignedUrl_result E b destination
                               (now_sign E + 60 * 60 * 1000))))))"

subsection \<open>The transcoder\<close>

text \<open>
  The parameter object of \<open>extractAudio\<close>; the four fields with a default in the
  source are optional.
\<close>

record extract_params =
  inputPath :: string
  outputPath :: string
  format :: "string option"
  sampleRate :: "jsnum option"
  channels :: "jsnum option"
  bitrateK :: "jsnum option"

definition ffmpeg_args :: "(rat \<Rightarrow> string) \<Rightarrow> extract_params \<Rightarrow> exn + string list" where
  "ffmpeg_args fmt P =
     (let fmt_name = (case format P of None \<Rightarrow> ''ogg'' | Some f \<Rightarrow> f);
          sr = (case sampleRate P of None \<Rightarrow> Fin 16000 | Some n \<Rightarrow> n);
          ch = (case channels P of None \<Rightarrow> Fin 1 | Some n \<Rightarrow> n);
          br = (case bitrateK P of None \<Rightarrow> Fin 32 | Some n \<Rightarrow> n);
          args = [''-y'', ''-i'', inputPath P, ''-vn'',
                  ''-ac'', NumberToString fmt ch, ''-ar'', NumberToString fmt sr]
      in if fmt_name = ''ogg''
         then Inr (args @ [''-c:a'', ''libopus'', ''-b:a'', NumberToString fmt br @ ''k'']
                    @ [outputPath P])
         else if fmt_name = ''mp3''
         then Inr (args @ [''-c:a'', ''libmp3lame'', ''-b:a'', NumberToString fmt br @ ''k'']
                    @ [outputPath P])
         else if fmt_name = ''wav''
         then Inr (args @ [''-c:a'', ''pcm_s16le''] @ [outputPath P])
         else Inl (Exn ''Error'' (''Unsupported format: '' @ fmt_name)))"

definition extractAudio :: "env \<Rightarrow> extract_params \<Rightarrow> unit comp" where
  "extractAudio E P =
     bind (lift (ffmpeg_args (NumberToString_other E) P))
       (\<lambda>args. bind (emit (ExecFile ''ffmpeg'' args))
         (\<lambda>_. fail_if (execFileSync_result E ''ffmpeg'' args)))"

section \<open>The endpoint \<open>POST /extract-audio\<close>\<close>

record request =
  body_fileId :: jsval
  body_format :: jsval
  body_bitrateK :: jsval
  body_sampleRate :: jsval
  body_channels :: jsval

text \<open>\<open>(req.body?.format || "ogg").toLowerCase()\<close>\<close>

definition format_option :: "jsval \<Rightarrow> exn + string" where
  "format_option v =
     (case (if truthy v then v else JStr ''ogg'') of
        JStr s \<Rightarrow> Inr (toLowerCase s)
      | _ \<Rightarrow>
          Inl (Exn ''TypeError''
                 (''((intermediate value) || '' @ quoted ''ogg'' @
                  '').toLowerCase is not a function'')))"

text \<open>\<open>Number(req.body?.x ?? d)\<close>\<close>

definition number_option :: "env \<Rightarrow> jsval \<Rightarrow> rat \<Rightarrow> exn + jsnum" where
  "number_option E v d =
     ToNumber (StringToNumber E) (NumberToString_other E)
       (case v of JUndef \<Rightarrow> JNum (Fin d) | JNull \<Rightarrow> JNum (Fin d) | _ \<Rightarrow> v)"

text \<open>\<open>Number.isFinite(x) && x > 0 ? x : d\<close>\<close>

definition positive_or :: "jsnum \<Rightarrow> rat \<Rightarrow> jsnum" where
  "positive_or x d = (if isFinite x \<and> gt0 x then x else Fin d)"

definition audioExt_of :: "string \<Rightarrow> string" where
  "audioExt_of fmt_name =
     (if fmt_name = ''mp3'' then ''mp3'' else if fmt_name = ''wav'' then ''wav'' else ''ogg'')"

definition workDir_of :: "string \<Rightarrow> string" where
  "workDir_of fid = ''/tmp/'' @ fid @ ''-audio''"

definition destination_of :: "string \<Rightarrow> string \<Rightarrow> string" where
  "destination_of fid ext = ''audio/'' @ fid @ ''.'' @ ext"

text \<open>\<open>err?.message || String(err)\<close> of a thrown \<open>Error\<close>.\<close>

definition error_text :: "exn \<Rightarrow> string" where
  "error_text e = (if emessage e \<noteq> [] then emessage e else ename e)"

definition bucket_missing :: "env \<Rightarrow> bool" where
  "bucket_missing E = (case BUCKET E of None \<Rightarrow> True | Some b \<Rightarrow> b = [])"

text \<open>The body of the \<open>try\<close> block.\<close>

definition pipeline ::
  "env \<Rightarrow> jsval \<Rightarrow> string \<Rightarrow> jsnum \<Rightarrow> jsnum \<Rightarrow> jsnum \<Rightarrow> string \<Rightarrow> string \<Rightarrow> string \<Rightarrow> string
     \<Rightarrow> unit comp" where
  "pipeline E fileId fmt_name br sr ch workDir inPath ext audioPath =
     bind (safeMkdir E workDir)
       (\<lambda>_. bind (downloadDriveFile E fileId inPath)
       (\<lambda>_. bind (statSync E inPath)
       (\<lambda>inputSize. bind (getDurationSeconds E inPath)
       (\<lambda>dur. bind (extractAudio E
                      \<lparr>inputPath = inPath, outputPath = audioPath, format = Some fmt_name,
                       sampleRate = Some (positive_or sr 16000),
                       channels = Some (positive_or ch 1),
                       bitrateK = Some (positive_or br 32)\<rparr>)
       (\<lambda>_. bind (statSync E audioPath)
       (\<lambda>audioSize. bind (lift (ToString (NumberToString_other E) fileId))
       (\<lambda>fid. bind (uploadAndSign E audioPath (destination_of fid ext))
       (\<lambda>audioUrl. emit (Respond 200 (ResultBody fileId audioUrl
            \<lparr>meta_format = fmt_name, inputBytes = inputSize, audioBytes = audioSize,
             durationSec = dur, elapsedMs = now_end E - now_start E,
             bucket = BUCKET E, meta_destination = destination_of fid ext\<rparr>))))))))))"

text \<open>The \<open>catch\<close> block: log the error, answer 500 with its message.\<close>

definition catch_block :: "exn \<Rightarrow> unit comp" where
  "catch_block err =
     bind (emit (LogError err)) (\<lambda>_. emit (Respond 500 (ErrorBody (error_text err))))"

definition handler :: "env \<Rightarrow> request \<Rightarrow> unit comp" where
  "handler E req =
     bind (lift (format_option (body_format req)))
       (\<lambda>fmt_name. bind (lift (number_option E (body_bitrateK req) 32))
       (\<lambda>br. bind (lift (number_option E (body_sampleRate req) 16000))
       (\<lambda>sr. bind (lift (number_option E (body_channels req) 1))
       (\<lambda>ch.
          if \<not> truthy (body_fileId req) then emit (Respond 400 (ErrorBody ''Missing fileId''))
          else if bucket_missing E then emit (Respond 500 (ErrorBody ''Missing BUCKET env var''))
          else
            bind (lift (ToString (NumberToString_other E) (body_fileId req)))
              (\<lambda>fid.
                 try_finally
                   (try_catch
                      (pipeline E (body_fileId req) fmt_name br sr ch (workDir_of fid)
                         (path_join (workDir_of fid) ''input.mp4'')
                         (audioExt_of fmt_name)
                         (path_join (workDir_of fid) (''audio.'' @ audioExt_of fmt_name)))
                      catch_block)
                   (safeRmdir E (workDir_of fid)))))))"

subsection \<open>The earlier version of the endpoint\<close>

text \<open>
  The earlier version of the server (\<open>server.js\<close>) has no format option and always
  publishes under \<open>`audio/${fileId}.ogg`\<close>.
\<close>

definition legacy_destination :: "(rat \<Rightarrow> string) \<Rightarrow> jsval \<Rightarrow> exn + string" where
  "legacy_destination fmt fileId =
     (case ToString fmt fileId of Inl e \<Rightarrow> Inl e | Inr fid \<Rightarrow> Inr (''audio/'' @ fid @ ''.ogg''))"

section \<open>Observations on a run\<close>

text \<open>What the probe hands to the handler, and two kinds of events.\<close>

definition probe_value :: "env \<Rightarrow> string \<Rightarrow> jsnum option" where
  "probe_value E p = (case fst (getDurationSeconds E p) of Value d \<Rightarrow> d | _ \<Rightarrow> None)"

fun is_Respond :: "event \<Rightarrow> bool" where
  "is_Respond (Respond st b) = True"
| "is_Respond ev = False"

fun is_Rm :: "event \<Rightarrow> bool" where
  "is_Rm (Rm p) = True"
| "is_Rm ev = False"

fun is_ExecFile :: "event \<Rightarrow> bool" where
  "is_ExecFile (ExecFile file args) = True"
| "is_ExecFile ev = False"



section \<open>A sample environment\<close>

text \<open>
  An environment in which every external call succeeds: the bucket is configured, the
  download delivers two chunks and finishes, the probe prints a duration of 2.5 seconds.
  The theorems below are instantiated at it and at variations of it.
\<close>

definition sample_probe_output :: string where
  "sample_probe_output =
     ''{'' @ quoted ''format'' @ '':{'' @ quoted ''duration'' @ '':'' @ quoted ''2.5'' @ ''}}''"

definition sample_StringToNumber :: "string \<Rightarrow> jsnum" where
  "sample_StringToNumber s =
     (if s = ''2.5'' then Fin (5 / 2) else if s = [] then Fin 0 else NaN)"

definition sample_JSON_parse :: "string \<Rightarrow> exn + jsval" where
  "sample_JSON_parse out =
     (if out = sample_probe_output
      then Inr (JObj [(''format'', JObj [(''duration'', JStr ''2.5'')])])
      else Inl (Exn ''SyntaxError'' ''Unexpected token''))"

definition sample_env :: env where
  "sample_env =
     \<lparr>BUCKET = Some ''audio-bucket'',
      StringToNumber = sample_StringToNumber,
      NumberToString_other = (\<lambda>r. ''2.5''),
      JSON_parse = sample_JSON_parse,
      now_start = 1000,
      now_sign = 1400,
      now_end = 1500,
      mkdirSync_result = (\<lambda>p. None),
      rmSync_result = (\<lambda>p. None),
      statSync_size = (\<lambda>p. Inr 2048),
      execSync_result = (\<lambda>c. Inr sample_probe_output),
      execFileSync_result = (\<lambda>file args. None),
      drive_files_get = (\<lambda>fileId. Inr [SrcData ''abc'', SrcData ''def'', SrcEnd, DestFinish]),
      upload_result = (\<lambda>b p d. None),
      getSignedUrl_result = (\<lambda>b d t. Inr (''https://storage.example/'' @ b @ ''/'' @ d))\<rparr>"

definition sample_request :: request where
  "sample_request =
     \<lparr>body_fileId = JStr ''abc123'', body_format = JUndef, body_bitrateK = JUndef,
      body_sampleRate = JUndef, body_channels = JUndef\<rparr>"

text \<open>The sample request with a format the transcoder does not know.\<close>

definition unsupported_request :: request where
  "unsupported_request = sample_request\<lparr>body_format := JStr ''XYZ''\<rparr>"

text \<open>
  Three more inputs: a body without \<open>fileId\<close> whose \<open>format\<close> is the number 5, a
  file identifier that contains double quotes, and an environment in which the source
  stream of the download emits an error after its first chunk.
\<close>

definition numeric_format_request :: request where
  "numeric_format_request =
     \<lparr>body_fileId = JUndef, body_format = JNum (Fin 5), body_bitrateK = JUndef,
      body_sampleRate = JUndef, body_channels = JUndef\<rparr>"

definition quoted_fileId :: string where
  "quoted_fileId = ''a'' @ [CHR 0x22] @ '';id;'' @ [CHR 0x22]"

definition aborted_download_env :: env where
  "aborted_download_env =
     sample_env\<lparr>drive_files_get :=
       (\<lambda>fileId. Inr [SrcData ''abc'', SrcError (Exn ''Error'' ''aborted'')])\<rparr>"



text \<open>
  Three more variations: the conversion tool fails; the \<open>channels\<close> option is an
  object with an own \<open>toString\<close> key; the format \<open>wav\<close> is requested.
\<close>

definition failing_ffmpeg_env :: env where
  "failing_ffmpeg_env =
     sample_env\<lparr>execFileSync_result := (\<lambda>file args. Some (Exn ''Error'' ''Command failed: ffmpeg''))\<rparr>"

definition object_channels_request :: request where
  "object_channels_request =
     sample_request\<lparr>body_channels := JObj [(''toString'', JNum (Fin 1))]\<rparr>"

definition wav_request :: request where
  "wav_request = sample_request\<lparr>body_format := JStr ''wav''\<rparr>"

section \<open>Basic facts\<close>

lemmas comp_defs =
  ret_def throw_def emit_def lift_def fail_if_def bind_def try_catch_def try_finally_def

lemmas number_print_defs =
  NumberToString_def is_safe_integer_def digits10.simps digit_char_def

lemmas sample_defs =
  sample_env_def sample_request_def sample_JSON_parse_def sample_StringToNumber_def
  sample_probe_output_def quoted_def

lemma default_numbers_print:
  "NumberToString fmt (Fin 16000) = ''16000''"
  "NumberToString fmt (Fin 1) = ''1''"
  "NumberToString fmt (Fin 32) = ''32''"
  by (simp_all add: number_print_defs)

section \<open>Each step as a function of the environment\<close>

lemma getDurationSeconds_shape:
  "getDurationSeconds E p = (Value (probe_value E p), [ExecShell (ffprobe_command p)])"
  by (simp add: probe_value_def getDurationSeconds_def ffprobeJson_def comp_defs
           split: sum.splits)

lemma safeRmdir_shape: "safeRmdir E p = (Value (), [Rm p])"
  by (simp add: safeRmdir_def comp_defs split: option.splits)

lemma safeMkdir_shape:
  "safeMkdir E p = ((case mkdirSync_result E p of None \<Rightarrow> Value () | Some e \<Rightarrow> Throw e), [Mkdir p])"
  by (simp add: safeMkdir_def comp_defs split: option.splits)

lemma statSync_shape:
  "statSync E p = ((case statSync_size E p of Inr n \<Rightarrow> Value n | Inl e \<Rightarrow> Throw e), [Stat p])"
  by (simp add: statSync_def comp_defs split: sum.splits)

lemma downloadDriveFile_shape:
  "downloadDriveFile E fileId p =
     (case drive_files_get E fileId of
        Inl e \<Rightarrow> (Throw e, [DriveGet fileId])
      | Inr evs \<Rightarrow>
          ((case fst (pipe_run False [] evs) of
              Fulfilled \<Rightarrow> Value () | Rejected e \<Rightarrow> Throw e | Unsettled \<Rightarrow> Pending),
           [DriveGet fileId, WriteFile p (snd (pipe_run False [] evs))]))"
  by (simp add: downloadDriveFile_def comp_defs split: sum.splits prod.splits promise.splits)

lemma extractAudio_shape:
  "extractAudio E P =
     (case ffmpeg_args (NumberToString_other E) P of
        Inl e \<Rightarrow> (Throw e, [])
      | Inr args \<Rightarrow>
          ((case execFileSync_result E ''ffmpeg'' args of None \<Rightarrow> Value () | Some e \<Rightarrow> Throw e),
           [ExecFile ''ffmpeg'' args]))"
  by (simp add: extractAudio_def comp_defs split: sum.splits option.splits)

lemma uploadAndSign_shape:
  "uploadAndSign E lp dest =
     (case BUCKET E of
        None \<Rightarrow> (Throw (Exn ''Error'' ''Missing BUCKET env var''), [])
      | Some b \<Rightarrow>
          if b = [] then (Throw (Exn ''Error'' ''Missing BUCKET env var''), [])
          else (case upload_result E b lp dest of
                  Some e \<Rightarrow> (Throw e, [Upload b lp dest])
                | None \<Rightarrow>
                    ((case getSignedUrl_result E b dest (now_sign E + 3600000) of
                        Inl e \<Rightarrow> Throw e | Inr u \<Rightarrow> Value u),
                     [Upload b lp dest, SignUrl b dest (now_sign E + 3600000)])))"
  by (simp add: uploadAndSign_def comp_defs split: sum.splits option.splits)

lemmas shapes = getDurationSeconds_shape safeRmdir_shape safeMkdir_shape statSync_shape
  downloadDriveFile_shape extractAudio_shape uploadAndSign_shape

lemma bind_simps:
  "bind (Value a, tr) f = (case f a of (r, tr') \<Rightarrow> (r, tr @ tr'))"
  "bind (Throw e, tr) f = (Throw e, tr)"
  "bind (Pending, tr) f = (Pending, tr)"
  by (simp_all add: bind_def)

lemmas run_defs = pipeline_def shapes bind_simps emit_def lift_def ret_def throw_def

lemma pipeline_cases [consumes 1, case_names mkdir_throws get_rejects download_rejects
    download_unsettled stat_input_throws unsupported ffmpeg_throws stat_audio_throws
    fileId_throws no_bucket upload_rejects sign_rejects success]:
  assumes run: "pipeline E fileId f br sr ch w ip ext ap = (r, tr)"
  obtains
    e where "mkdirSync_result E w = Some e" "r = Throw e" "tr = [Mkdir w]"
  | e where "drive_files_get E fileId = Inl e" "r = Throw e" "tr = [Mkdir w, DriveGet fileId]"
  | evs e where "drive_files_get E fileId = Inr evs" "fst (pipe_run False [] evs) = Rejected e"
      "r = Throw e" "tr = [Mkdir w, DriveGet fileId, WriteFile ip (snd (pipe_run False [] evs))]"
  | evs where "drive_files_get E fileId = Inr evs" "fst (pipe_run False [] evs) = Unsettled"
      "r = Pending" "tr = [Mkdir w, DriveGet fileId, WriteFile ip (snd (pipe_run False [] evs))]"
  | cs e where "statSync_size E ip = Inl e" "r = Throw e"
      "tr = [Mkdir w, DriveGet fileId, WriteFile ip cs, Stat ip]"
  | cs e where
      "ffmpeg_args (NumberToString_other E)
         \<lparr>inputPath = ip, outputPath = ap, format = Some f,
          sampleRate = Some (positive_or sr 16000), channels = Some (positive_or ch 1),
          bitrateK = Some (positive_or br 32)\<rparr> = Inl e"
      "r = Throw e"
      "tr = [Mkdir w, DriveGet fileId, WriteFile ip cs, Stat ip, ExecShell (ffprobe_command ip)]"
  | cs args e where
      "ffmpeg_args (NumberToString_other E)
         \<lparr>inputPath = ip, outputPath = ap, format = Some f,
          sampleRate = Some (positive_or sr 16000), channels = Some (positive_or ch 1),
          bitrateK = Some (positive_or br 32)\<rparr> = Inr args"
      "execFileSync_result E ''ffmpeg'' args = Some e"
      "r = Throw e"
      "tr = [Mkdir w, DriveGet fileId, WriteFile ip cs, Stat ip, ExecShell (ffprobe_command ip),
             ExecFile ''ffmpeg'' args]"
  | cs args e where
      "ffmpeg_args (NumberToString_other E)
         \<lparr>inputPath = ip, outputPath = ap, format = Some f,
          sampleRate = Some (positive_or sr 16000), channels = Some (positive_or ch 1),
          bitrateK = Some (positive_or br 32)\<rparr> = Inr args"
      "statSync_size E ap = Inl e"
      "r = Throw e"
      "tr = [Mkdir w, DriveGet fileId, WriteFile ip cs, Stat ip, ExecShell (ffprobe_command ip),
             ExecFile ''ffmpeg'' args, Stat ap]"
  | cs args e where
      "ffmpeg_args (NumberToString_other E)
         \<lparr>inputPath = ip, outputPath = ap, format = Some f,
          sampleRate = Some (positive_or sr 16000), channels = Some (positive_or ch 1),
          bitrateK = Some (positive_or br 32)\<rparr> = Inr args"
      "ToString (NumberToString_other E) fileId = Inl e"
      "r = Throw e"
      "tr = [Mkdir w, DriveGet fileId, WriteFile ip cs, Stat ip, ExecShell (ffprobe_command ip),
             ExecFile ''ffmpeg'' args, Stat ap]"
  | cs args where
      "ffmpeg_args (NumberToString_other E)
         \<lparr>inputPath = ip, outputPath = ap, format = Some f,
          sampleRate = Some (positive_or sr 16000), channels = Some (positive_or ch 1),
          bitrateK = Some (positive_or br 32)\<rparr> = Inr args"
      "bucket_missing E"
      "r = Throw (Exn ''Error'' ''Missing BUCKET env var'')"
      "tr = [Mkdir w, DriveGet fileId, WriteFile ip cs, Stat ip, ExecShell (ffprobe_command ip),
             ExecFile ''ffmpeg'' args, Stat ap]"
  | cs args fid b e where
      "ffmpeg_args (NumberToString_other E)
         \<lparr>inputPath = ip, outputPath = ap, format = Some f,
          sampleRate = Some (positive_or sr 16000), channels = Some (positive_or ch 1),
          bitrateK = Some (positive_or br 32)\<rparr> = Inr args"
      "ToString (NumberToString_other E) fileId = Inr fid"
      "BUCKET E = Some b"
      "upload_result E b ap (destination_of fid ext) = Some e"
      "r = Throw e"
      "tr = [Mkdir w, DriveGet fileId, WriteFile ip cs, Stat ip, ExecShell (ffprobe_command ip),
             ExecFile ''ffmpeg'' args, Stat ap, Upload b ap (destination_of fid ext)]"
  | cs args fid b e where
      "ffmpeg_args (NumberToString_other E)
         \<lparr>inputPath = ip, outputPath = ap, format = Some f,
          sampleRate = Some (positive_or sr 16000), channels = Some (positive_or ch 1),
          bitrateK = Some (positive_or br 32)\<rparr> = Inr args"
      "ToString (NumberToString_other E) fileId = Inr fid"
      "BUCKET E = Some b"
      "getSignedUrl_result E b (destination_of fid ext) (now_sign E + 3600000) = Inl e"
      "r = Throw e"
      "tr = [Mkdir w, DriveGet fileId, WriteFile ip cs, Stat ip, ExecShell (ffprobe_command ip),
             ExecFile ''ffmpeg'' args, Stat ap, Upload b ap (destination_of fid ext),
             SignUrl b (destination_of fid ext) (now_sign E + 3600000)]"
  | cs args fid b n m u where
      "ffmpeg_args (NumberToString_other E)
         \<lparr>inputPath = ip, outputPath = ap, format = Some f,
          sampleRate = Some (positive_or sr 16000), channels = Some (positive_or ch 1),
          bitrateK = Some (positive_or br 32)\<rparr> = Inr args"
      "ToString (NumberToString_other E) fileId = Inr fid"
      "BUCKET E = Some b"
      "statSync_size E ip = Inr n" "statSync_size E ap = Inr m"
      "getSignedUrl_result E b (destination_of fid ext) (now_sign E + 3600000) = Inr u"
      "r = Value ()"
      "tr = [Mkdir w, DriveGet fileId, WriteFile ip cs, Stat ip, ExecShell (ffprobe_command ip),
             ExecFile ''ffmpeg'' args, Stat ap, Upload b ap (destination_of fid ext),
             SignUrl b (destination_of fid ext) (now_sign E + 3600000),
             Respond 200 (ResultBody fileId u
               \<lparr>meta_format = f, inputBytes = n, audioBytes = m,
                durationSec = probe_value E ip, elapsedMs = now_end E - now_start E,
                bucket = BUCKET E, meta_destination = destination_of fid ext\<rparr>)]"
proof (cases "mkdirSync_result E w")
  case (Some e)
  show thesis using run Some by (intro that(1)[of e]; simp add: run_defs)
next
  case mk: None
  show thesis
  proof (cases "drive_files_get E fileId")
    case (Inl e)
    show thesis using run mk Inl by (intro that(2)[of e]; simp add: run_defs)
  next
    case get: (Inr evs)
    show thesis
    proof (cases "fst (pipe_run False [] evs)")
      case (Rejected e)
      show thesis using run mk get Rejected by (intro that(3)[of evs e]; simp add: run_defs)
    next
      case Unsettled
      show thesis using run mk get Unsettled by (intro that(4)[of evs]; simp add: run_defs)
    next
      case dl: Fulfilled
      show thesis
      proof (cases "statSync_size E ip")
        case (Inl e)
        show thesis using run mk get dl Inl
          by (intro that(5)[of e "snd (pipe_run False [] evs)"]; simp add: run_defs)
      next
        case st: (Inr n)
        let ?cs = "snd (pipe_run False [] evs)"
        let ?P = "\<lparr>inputPath = ip, outputPath = ap, format = Some f,
          sampleRate = Some (positive_or sr 16000), channels = Some (positive_or ch 1),
          bitrateK = Some (positive_or br 32)\<rparr>"
        note pre = run mk get dl st
        show thesis
        proof (cases "ffmpeg_args (NumberToString_other E) ?P")
          case (Inl e)
          show thesis using pre Inl
            by (intro that(6)[where e=e and cs="?cs"]; simp add: run_defs)
        next
          case fa: (Inr args)
          show thesis
          proof (cases "execFileSync_result E ''ffmpeg'' args")
            case (Some e)
            show thesis using pre fa Some
              by (intro that(7)[where e=e and cs="?cs" and args=args]; simp add: run_defs)
          next
            case ex: None
            show thesis
            proof (cases "statSync_size E ap")
              case (Inl e)
              show thesis using pre fa ex Inl
                by (intro that(8)[where e=e and cs="?cs" and args=args]; simp add: run_defs)
            next
              case st2: (Inr m)
              show thesis
              proof (cases "ToString (NumberToString_other E) fileId")
                case (Inl e)
                show thesis using pre fa ex st2 Inl
                  by (intro that(9)[where e=e and cs="?cs" and args=args]; simp add: run_defs)
              next
                case ts: (Inr fid)
                show thesis
                proof (cases "bucket_missing E")
                  case True
                  show thesis using pre fa ex st2 ts True
                    by (intro that(10)[where cs="?cs" and args=args];
                        simp add: run_defs bucket_missing_def split: option.splits)
                next
                  case False
                  then obtain b where b: "BUCKET E = Some b" "b \<noteq> []"
                    by (auto simp: bucket_missing_def split: option.splits)
                  show thesis
                  proof (cases "upload_result E b ap (destination_of fid ext)")
                    case (Some e)
                    show thesis using pre fa ex st2 ts b Some
                      by (intro that(11)[where e=e and cs="?cs" and args=args and fid=fid and b=b];
                          simp add: run_defs)
                  next
                    case up: None
                    show thesis
                    proof (cases "getSignedUrl_result E b (destination_of fid ext) (now_sign E + 3600000)")
                      case (Inl e)
                      show thesis using pre fa ex st2 ts b up Inl
                        by (intro that(12)[where e=e and cs="?cs" and args=args and fid=fid and b=b];
                            simp add: run_defs)
                    next
                      case (Inr u)
                      show thesis using pre fa ex st2 ts b up Inr
                        by (intro that(13)[where cs="?cs" and args=args and fid=fid and b=b
                                            and n=n and m=m and u=u];
                            simp add: run_defs)
                    qed
                  qed
                qed
              qed
            qed
          qed
        qed
      qed
    qed
  qed
qed

section \<open>The runs of the handler\<close>

lemma guarded_eq:
  "try_finally (try_catch (r0, tr0) catch_block) (safeRmdir E w) =
     (case r0 of
        Value u \<Rightarrow> (Value (), tr0 @ [Rm w])
      | Throw e \<Rightarrow> (Value (), tr0 @ [LogError e, Respond 500 (ErrorBody (error_text e)), Rm w])
      | Pending \<Rightarrow> (Pending, tr0))"
  by (cases r0) (simp_all add: try_finally_def try_catch_def catch_block_def safeRmdir_shape
        bind_simps emit_def)

lemma bind_lift:
  "bind (lift (Inr a)) f = f a"
  "bind (lift (Inl e)) f = (Throw e, [])"
  by (simp_all add: lift_def ret_def throw_def bind_simps split: prod.splits)

lemma handler_cases [consumes 1, case_names throws missing_fileId missing_bucket ran]:
  assumes run: "handler E req = (r, tr)"
  obtains
    e where "r = Throw e" "tr = []"
  | "\<not> truthy (body_fileId req)" "r = Value ()" "tr = [Respond 400 (ErrorBody ''Missing fileId'')]"
  | "truthy (body_fileId req)" "bucket_missing E" "r = Value ()"
      "tr = [Respond 500 (ErrorBody ''Missing BUCKET env var'')]"
  | f br sr ch fid r0 tr0 where
      "format_option (body_format req) = Inr f"
      "number_option E (body_bitrateK req) 32 = Inr br"
      "number_option E (body_sampleRate req) 16000 = Inr sr"
      "number_option E (body_channels req) 1 = Inr ch"
      "truthy (body_fileId req)" "\<not> bucket_missing E"
      "ToString (NumberToString_other E) (body_fileId req) = Inr fid"
      "pipeline E (body_fileId req) f br sr ch (workDir_of fid)
         (path_join (workDir_of fid) ''input.mp4'') (audioExt_of f)
         (path_join (workDir_of fid) (''audio.'' @ audioExt_of f)) = (r0, tr0)"
      "(r, tr) =
         (case r0 of
            Value u \<Rightarrow> (Value (), tr0 @ [Rm (workDir_of fid)])
          | Throw e \<Rightarrow> (Value (), tr0 @ [LogError e, Respond 500 (ErrorBody (error_text e)),
                                          Rm (workDir_of fid)])
          | Pending \<Rightarrow> (Pending, tr0))"
proof (cases "format_option (body_format req)")
  case (Inl e)
  show thesis using run Inl by (intro that(1)[where e=e]; simp add: handler_def bind_lift)
next
  case c1: (Inr f)
  show thesis
  proof (cases "number_option E (body_bitrateK req) 32")
    case (Inl e)
    show thesis using run c1 Inl by (intro that(1)[where e=e]; simp add: handler_def bind_lift)
  next
    case c2: (Inr br)
    show thesis
    proof (cases "number_option E (body_sampleRate req) 16000")
      case (Inl e)
      show thesis using run c1 c2 Inl by (intro that(1)[where e=e]; simp add: handler_def bind_lift)
    next
      case c3: (Inr sr)
      show thesis
      proof (cases "number_option E (body_channels req) 1")
        case (Inl e)
        show thesis using run c1 c2 c3 Inl
          by (intro that(1)[where e=e]; simp add: handler_def bind_lift)
      next
        case c4: (Inr ch)
        note pre = run c1 c2 c3 c4
        show thesis
        proof (cases "truthy (body_fileId req)")
          case False
          show thesis using pre False by (intro that(2); simp add: handler_def bind_lift emit_def)
        next
          case t: True
          show thesis
          proof (cases "bucket_missing E")
            case True
            show thesis using pre t True by (intro that(3); simp add: handler_def bind_lift emit_def)
          next
            case nb: False
            show thesis
            proof (cases "ToString (NumberToString_other E) (body_fileId req)")
              case (Inl e)
              show thesis using pre t nb Inl
                by (intro that(1)[where e=e]; simp add: handler_def bind_lift)
            next
              case ts: (Inr fid)
              obtain r0 tr0 where p: "pipeline E (body_fileId req) f br sr ch (workDir_of fid)
                 (path_join (workDir_of fid) ''input.mp4'') (audioExt_of f)
                 (path_join (workDir_of fid) (''audio.'' @ audioExt_of f)) = (r0, tr0)"
                by (cases "pipeline E (body_fileId req) f br sr ch (workDir_of fid)
                 (path_join (workDir_of fid) ''input.mp4'') (audioExt_of f)
                 (path_join (workDir_of fid) (''audio.'' @ audioExt_of f))") blast
              have "handler E req =
                  (case r0 of
                     Value u \<Rightarrow> (Value (), tr0 @ [Rm (workDir_of fid)])
                   | Throw e \<Rightarrow> (Value (), tr0 @ [LogError e,
                         Respond 500 (ErrorBody (error_text e)), Rm (workDir_of fid)])
                   | Pending \<Rightarrow> (Pending, tr0))"
                using c1 c2 c3 c4 t nb ts p by (simp add: handler_def bind_lift guarded_eq)
              with run have fin: "(r, tr) =
                  (case r0 of
                     Value u \<Rightarrow> (Value (), tr0 @ [Rm (workDir_of fid)])
                   | Throw e \<Rightarrow> (Value (), tr0 @ [LogError e,
                         Respond 500 (ErrorBody (error_text e)), Rm (workDir_of fid)])
                   | Pending \<Rightarrow> (Pending, tr0))"
                by simp
              show thesis using c1 c2 c3 c4 t nb ts p fin by (rule that(4))
            qed
          qed
        qed
      qed
    qed
  qed
qed

section \<open>The sample run\<close>

lemmas eval_defs = handler_def pipeline_def catch_block_def safeMkdir_def safeRmdir_def statSync_def
  ffprobe_command_def ffprobeJson_def optional_get_def getDurationSeconds_def downloadDriveFile_def
  uploadAndSign_def ffmpeg_args_def extractAudio_def format_option_def number_option_def
  positive_or_def audioExt_of_def workDir_of_def destination_of_def error_text_def bucket_missing_def
  comp_defs number_print_defs toLowerCase_def lower_char_def char_of_def bit_Suc_0_iff
  path_join_def path_normalize_def sample_defs

lemma sample_run:
  "handler sample_env sample_request =
     (Value (),
      [Mkdir ''/tmp/abc123-audio'',
       DriveGet (JStr ''abc123''),
       WriteFile ''/tmp/abc123-audio/input.mp4'' [''abc'', ''def''],
       Stat ''/tmp/abc123-audio/input.mp4'',
       ExecShell (ffprobe_command ''/tmp/abc123-audio/input.mp4''),
       ExecFile ''ffmpeg''
         [''-y'', ''-i'', ''/tmp/abc123-audio/input.mp4'', ''-vn'', ''-ac'', ''1'', ''-ar'', ''16000'',
          ''-c:a'', ''libopus'', ''-b:a'', ''32k'', ''/tmp/abc123-audio/audio.ogg''],
       Stat ''/tmp/abc123-audio/audio.ogg'',
       Upload ''audio-bucket'' ''/tmp/abc123-audio/audio.ogg'' ''audio/abc123.ogg'',
       SignUrl ''audio-bucket'' ''audio/abc123.ogg'' 3601400,
       Respond 200
         (ResultBody (JStr ''abc123'') ''https://storage.example/audio-bucket/audio/abc123.ogg''
            \<lparr>meta_format = ''ogg'', inputBytes = 2048, audioBytes = 2048,
             durationSec = Some (Fin (5 / 2)), elapsedMs = 500,
             bucket = Some ''audio-bucket'', meta_destination = ''audio/abc123.ogg''\<rparr>),
       Rm ''/tmp/abc123-audio''])"
  by (simp add: eval_defs)

section \<open>The transcoder's argument list\<close>

text \<open>
  Claim C8. The argument list of the transcoder disables video (\<open>-vn\<close>), sets the
  channel count (\<open>-ac\<close>) and the sample rate (\<open>-ar\<close>), and then, per format: for ogg
  the opus codec with a bitrate of \<open>bitrateK\<close> kbps, for mp3 the mp3 codec with a bitrate
  of \<open>bitrateK\<close> kbps, for wav uncompressed 16-bit PCM, where \<open>bitrateK\<close> does not
  occur in the arguments. The list is what \<open>extractAudio\<close> starts \<open>ffmpeg\<close> with.
\<close>

theorem transcoder_arguments:
  "ffmpeg_args fmt \<lparr>inputPath = i, outputPath = out, format = Some ''ogg'',
       sampleRate = Some sr, channels = Some ch, bitrateK = Some br\<rparr>
     = Inr [''-y'', ''-i'', i, ''-vn'', ''-ac'', NumberToString fmt ch,
            ''-ar'', NumberToString fmt sr,
            ''-c:a'', ''libopus'', ''-b:a'', NumberToString fmt br @ ''k'', out]
   \<and> ffmpeg_args fmt \<lparr>inputPath = i, outputPath = out, format = Some ''mp3'',
       sampleRate = Some sr, channels = Some ch, bitrateK = Some br\<rparr>
     = Inr [''-y'', ''-i'', i, ''-vn'', ''-ac'', NumberToString fmt ch,
            ''-ar'', NumberToString fmt sr,
            ''-c:a'', ''libmp3lame'', ''-b:a'', NumberToString fmt br @ ''k'', out]
   \<and> ffmpeg_args fmt \<lparr>inputPath = i, outputPath = out, format = Some ''wav'',
       sampleRate = Some sr, channels = Some ch, bitrateK = b\<rparr>
     = Inr [''-y'', ''-i'', i, ''-vn'', ''-ac'', NumberToString fmt ch,
            ''-ar'', NumberToString fmt sr, ''-c:a'', ''pcm_s16le'', out]
   \<and> snd (extractAudio E P)
     = (case ffmpeg_args (NumberToString_other E) P of
          Inl e \<Rightarrow> []
        | Inr args \<Rightarrow> [ExecFile ''ffmpeg'' args])"
  by (cases b) (simp_all add: ffmpeg_args_def extractAudio_def comp_defs split: sum.splits option.splits)

theorem transcoder_arguments_witness:
  "ffmpeg_args (NumberToString_other sample_env)
       \<lparr>inputPath = ''/tmp/abc123-audio/input.mp4'', outputPath = ''/tmp/abc123-audio/audio.ogg'',
        format = Some ''ogg'', sampleRate = Some (Fin 16000), channels = Some (Fin 1),
        bitrateK = Some (Fin 32)\<rparr>
     = Inr [''-y'', ''-i'', ''/tmp/abc123-audio/input.mp4'', ''-vn'', ''-ac'', ''1'',
            ''-ar'', ''16000'', ''-c:a'', ''libopus'', ''-b:a'', ''32k'',
            ''/tmp/abc123-audio/audio.ogg'']
   \<and> ffmpeg_args (NumberToString_other sample_env)
       \<lparr>inputPath = ''/tmp/abc123-audio/input.mp4'', outputPath = ''/tmp/abc123-audio/audio.wav'',
        format = Some ''wav'', sampleRate = Some (Fin 16000), channels = Some (Fin 1),
        bitrateK = Some (Fin 32)\<rparr>
     = Inr [''-y'', ''-i'', ''/tmp/abc123-audio/input.mp4'', ''-vn'', ''-ac'', ''1'',
            ''-ar'', ''16000'', ''-c:a'', ''pcm_s16le'', ''/tmp/abc123-audio/audio.wav'']"
  using transcoder_arguments [of "NumberToString_other sample_env"
      "''/tmp/abc123-audio/input.mp4''" "''/tmp/abc123-audio/audio.ogg''"
      "Fin 16000" "Fin 1" "Fin 32"]
    transcoder_arguments [of "NumberToString_other sample_env"
      "''/tmp/abc123-audio/input.mp4''" "''/tmp/abc123-audio/audio.wav''"
      "Fin 16000" "Fin 1" "Fin 32" "Some (Fin 32)"]
  by (simp add: default_numbers_print)

section \<open>Cleanup of the working directory\<close>

lemma pipeline_trace:
  assumes "pipeline E fileId f br sr ch w ip ext ap = (r0, tr0)"
  shows "filter is_Rm tr0 = []"
    and "Mkdir w' \<in> set tr0 \<Longrightarrow> w' = w"
    and "r0 \<noteq> Value () \<Longrightarrow> filter is_Respond tr0 = []"
    and "r0 = Value () \<Longrightarrow> tr0 \<noteq> [] \<and> is_Respond (last tr0) \<and> filter is_Respond (butlast tr0) = []"
  using assms by (cases rule: pipeline_cases; simp)+

lemma uploadAndSign_rm_irrelevant:
  "uploadAndSign (E\<lparr>rmSync_result := x\<rparr>) lp d = uploadAndSign E lp d"
  by (simp add: uploadAndSign_def split: option.splits)

lemma pipeline_rm_irrelevant:
  "pipeline (E\<lparr>rmSync_result := x\<rparr>) fileId f br sr ch w ip ext ap
     = pipeline E fileId f br sr ch w ip ext ap"
  by (simp add: pipeline_def safeMkdir_def downloadDriveFile_def
        statSync_def getDurationSeconds_def ffprobeJson_def extractAudio_def
        uploadAndSign_rm_irrelevant)

lemma env_rm_irrelevant:
  "handler (E\<lparr>rmSync_result := x\<rparr>) req = handler E req"
  by (simp add: handler_def pipeline_rm_irrelevant safeRmdir_shape
        number_option_def bucket_missing_def cong: if_cong)

lemma cleanup_if_handler_ends:
  assumes run: "handler E req = (r, tr)" and reached: "Mkdir w \<in> set tr" and exits: "r \<noteq> Pending"
  shows "r = Value ()
       \<and> (\<exists>pre st b. tr = pre @ [Respond st b, Rm w]
             \<and> filter is_Respond pre = [] \<and> filter is_Rm pre = [])
       \<and> handler (E\<lparr>rmSync_result := x\<rparr>) req = (r, tr)
       \<and> safeRmdir E p = (Value (), [Rm p])"
proof -
  from run have "r = Value () \<and> (\<exists>pre st b. tr = pre @ [Respond st b, Rm w]
             \<and> filter is_Respond pre = [] \<and> filter is_Rm pre = [])"
  proof (cases rule: handler_cases)
    case (throws e)
    with reached show ?thesis by simp
  next
    case missing_fileId
    with reached show ?thesis by simp
  next
    case missing_bucket
    with reached show ?thesis by simp
  next
    case (ran f br sr ch fid r0 tr0)
    note tf = pipeline_trace [OF ran(8)]
    show ?thesis
    proof (cases r0)
      case (Value u)
      with ran(9) have r: "r = Value ()" and tr: "tr = tr0 @ [Rm (workDir_of fid)]" by simp_all
      from Value tf(4) have l: "tr0 \<noteq> []" "is_Respond (last tr0)"
        "filter is_Respond (butlast tr0) = []" by simp_all
      from l(2) obtain st b where lb: "last tr0 = Respond st b" by (cases "last tr0") simp_all
      from reached tr tf(2) have w: "w = workDir_of fid" by auto
      have "tr = butlast tr0 @ [Respond st b, Rm w]"
        using tr l(1) lb w by (metis append_butlast_last_id append_Cons append_Nil append_assoc)
      moreover have "filter is_Rm (butlast tr0) = []"
        using tf(1) l(1) by (metis append_butlast_last_id filter_append append_is_Nil_conv)
      ultimately show ?thesis using r l(3) by blast
    next
      case (Throw e)
      with ran(9) have r: "r = Value ()"
        and tr: "tr = tr0 @ [LogError e, Respond 500 (ErrorBody (error_text e)), Rm (workDir_of fid)]"
        by simp_all
      from reached tr tf(2) have w: "w = workDir_of fid" by auto
      have "tr = (tr0 @ [LogError e]) @ [Respond 500 (ErrorBody (error_text e)), Rm w]"
        using tr w by simp
      moreover have "filter is_Respond (tr0 @ [LogError e]) = []" using tf(3) Throw by simp
      moreover have "filter is_Rm (tr0 @ [LogError e]) = []" using tf(1) by simp
      ultimately show ?thesis using r by blast
    next
      case Pending
      with ran(9) exits show ?thesis by simp
    qed
  qed
  then show ?thesis using run by (simp add: env_rm_irrelevant safeRmdir_shape)
qed

lemma pipeline_pending:
  assumes "pipeline E fileId f br sr ch w ip ext ap = (Pending, tr0)"
  shows "\<exists>evs. drive_files_get E fileId = Inr evs \<and> fst (pipe_run False [] evs) = Unsettled"
  using assms by (cases rule: pipeline_cases) simp_all

lemma cleanup_when_download_settles:
  assumes run: "handler E req = (r, tr)" and reached: "Mkdir w \<in> set tr"
    and settles: "\<And>evs. drive_files_get E (body_fileId req) = Inr evs \<Longrightarrow>
                    fst (pipe_run False [] evs) \<noteq> Unsettled"
  shows "r = Value ()
       \<and> (\<exists>pre st b. tr = pre @ [Respond st b, Rm w]
             \<and> filter is_Respond pre = [] \<and> filter is_Rm pre = [])"
proof -
  from run have "r \<noteq> Pending"
  proof (cases rule: handler_cases)
    case (ran f br sr ch fid r0 tr0)
    have "r0 \<noteq> Pending"
    proof
      assume "r0 = Pending"
      with ran(8) pipeline_pending obtain evs where
        "drive_files_get E (body_fileId req) = Inr evs" "fst (pipe_run False [] evs) = Unsettled"
        by blast
      with settles show False by blast
    qed
    with ran(9) show ?thesis by (cases r0) simp_all
  qed simp_all
  with run reached show ?thesis using cleanup_if_handler_ends by blast
qed

lemma failing_ffmpeg_run:
  "handler failing_ffmpeg_env sample_request =
     (Value (),
      [Mkdir ''/tmp/abc123-audio'',
       DriveGet (JStr ''abc123''),
       WriteFile ''/tmp/abc123-audio/input.mp4'' [''abc'', ''def''],
       Stat ''/tmp/abc123-audio/input.mp4'',
       ExecShell (ffprobe_command ''/tmp/abc123-audio/input.mp4''),
       ExecFile ''ffmpeg''
         [''-y'', ''-i'', ''/tmp/abc123-audio/input.mp4'', ''-vn'', ''-ac'', ''1'', ''-ar'', ''16000'',
          ''-c:a'', ''libopus'', ''-b:a'', ''32k'', ''/tmp/abc123-audio/audio.ogg''],
       LogError (Exn ''Error'' ''Command failed: ffmpeg''),
       Respond 500 (ErrorBody ''Command failed: ffmpeg''),
       Rm ''/tmp/abc123-audio''])"
  by (simp add: eval_defs failing_ffmpeg_env_def)

text \<open>
  Claim C2 says that for every request that reaches the creation of the working directory
  the directory is removed after the response, on the success path and on a failure at
  any stage, and that a failure of the removal is swallowed. The lemmas above are what
  holds: \<open>safeRmdir\<close> never throws and its outcome changes nothing, and whenever the
  promise of the download is settled the handler returns normally and its effects end
  with one response and then the removal of that directory, as in the run where the
  conversion tool fails. A failure of the source stream at the fetch stage leaves that
  promise unsettled (no listener is registered on the source): the directory has been created,
  and the handler sends no response and removes nothing.
\<close>

theorem aborted_download_leaves_directory:
  "handler aborted_download_env sample_request
     = (Pending, [Mkdir ''/tmp/abc123-audio'', DriveGet (JStr ''abc123''),
                  WriteFile ''/tmp/abc123-audio/input.mp4'' [''abc'']])
   \<and> filter is_Respond (snd (handler aborted_download_env sample_request)) = []
   \<and> filter is_Rm (snd (handler aborted_download_env sample_request)) = []"
proof -
  have "handler aborted_download_env sample_request
     = (Pending, [Mkdir ''/tmp/abc123-audio'', DriveGet (JStr ''abc123''),
                  WriteFile ''/tmp/abc123-audio/input.mp4'' [''abc'']])"
    by (simp add: eval_defs aborted_download_env_def)
  then show ?thesis by simp
qed

section \<open>Unsupported formats\<close>

lemma ffmpeg_args_unsupported:
  assumes "f \<noteq> ''ogg''" "f \<noteq> ''mp3''" "f \<noteq> ''wav''"
  shows "ffmpeg_args fmt \<lparr>inputPath = i, outputPath = out, format = Some f,
            sampleRate = s, channels = c, bitrateK = b\<rparr>
         = Inl (Exn ''Error'' (''Unsupported format: '' @ f))"
  using assms by (simp add: ffmpeg_args_def)

text \<open>
  Claim C1, as stated, fails: the handler probes the downloaded file before it calls the
  transcoder, so a request with an unsupported format has already spawned the probe
  subprocess when it fails. At the sample request with format \<open>XYZ\<close> the
  \<open>ExecShell\<close> effect precedes the 500 response.
\<close>

theorem unsupported_format_after_probe:
  "format_option (body_format unsupported_request) = Inr ''xyz''
   \<and> handler sample_env unsupported_request =
     (Value (),
      [Mkdir ''/tmp/abc123-audio'',
       DriveGet (JStr ''abc123''),
       WriteFile ''/tmp/abc123-audio/input.mp4'' [''abc'', ''def''],
       Stat ''/tmp/abc123-audio/input.mp4'',
       ExecShell (ffprobe_command ''/tmp/abc123-audio/input.mp4''),
       LogError (Exn ''Error'' ''Unsupported format: xyz''),
       Respond 500 (ErrorBody ''Unsupported format: xyz''),
       Rm ''/tmp/abc123-audio''])"
  by (simp add: eval_defs unsupported_request_def char_of_def bit_Suc_0_iff)

text \<open>
  Claim C1, amended. For every request whose format option normalises to a string \<open>f\<close>
  other than ogg, mp3 and wav: no program is started with \<open>execFileSync\<close> (the
  conversion tool never runs) and no success response is sent; if the request gets as far
  as the probe, the handler returns normally and its effects end with the probe, the log
  of the error, the 500 response whose message is \<open>Unsupported format: f\<close>, and the
  removal of the working directory. \<open>extractAudio\<close> itself, given such a format,
  throws that error with no effect at all.
\<close>

theorem unsupported_format_fails_at_transcode:
  assumes fmt: "format_option (body_format req) = Inr f"
    and not_supported: "f \<noteq> ''ogg''" "f \<noteq> ''mp3''" "f \<noteq> ''wav''"
    and run: "handler E req = (r, tr)"
  shows "filter is_ExecFile tr = []
       \<and> (\<forall>b. Respond 200 b \<notin> set tr)
       \<and> (ExecShell c \<in> set tr \<longrightarrow>
            r = Value () \<and>
            (\<exists>pre w. tr = pre @ [ExecShell c,
                                  LogError (Exn ''Error'' (''Unsupported format: '' @ f)),
                                  Respond 500 (ErrorBody (''Unsupported format: '' @ f)),
                                  Rm w]))
       \<and> extractAudio E \<lparr>inputPath = i, outputPath = out, format = Some f,
                          sampleRate = s, channels = ch', bitrateK = b\<rparr>
           = (Throw (Exn ''Error'' (''Unsupported format: '' @ f)), [])"
proof -
  note un = ffmpeg_args_unsupported [OF not_supported]
  have last: "extractAudio E \<lparr>inputPath = i, outputPath = out, format = Some f,
                          sampleRate = s, channels = ch', bitrateK = b\<rparr>
           = (Throw (Exn ''Error'' (''Unsupported format: '' @ f)), [])"
    by (simp add: extractAudio_shape un)
  from run have "filter is_ExecFile tr = []
       \<and> (\<forall>b. Respond 200 b \<notin> set tr)
       \<and> (ExecShell c \<in> set tr \<longrightarrow>
            r = Value () \<and>
            (\<exists>pre w. tr = pre @ [ExecShell c,
                                  LogError (Exn ''Error'' (''Unsupported format: '' @ f)),
                                  Respond 500 (ErrorBody (''Unsupported format: '' @ f)),
                                  Rm w]))"
  proof (cases rule: handler_cases)
    case (throws e)
    then show ?thesis by simp
  next
    case missing_fileId
    then show ?thesis by simp
  next
    case missing_bucket
    then show ?thesis by simp
  next
    case (ran f' br sr ch fid r0 tr0)
    with fmt have f: "f' = f" by simp
    from ran(8) show ?thesis
    proof (cases rule: pipeline_cases)
      case (unsupported cs e)
      with un f have e: "e = Exn ''Error'' (''Unsupported format: '' @ f)" by simp
      from unsupported ran(9) e have r: "r = Value ()" and
        tr: "tr = [Mkdir (workDir_of fid), DriveGet (body_fileId req),
                   WriteFile (path_join (workDir_of fid) ''input.mp4'') cs,
                   Stat (path_join (workDir_of fid) ''input.mp4'')] @
                  [ExecShell (ffprobe_command (path_join (workDir_of fid) ''input.mp4'')),
                   LogError (Exn ''Error'' (''Unsupported format: '' @ f)),
                   Respond 500 (ErrorBody (''Unsupported format: '' @ f)),
                   Rm (workDir_of fid)]"
        by (simp_all add: error_text_def)
      have "ExecShell c \<in> set tr \<longrightarrow> c = ffprobe_command (path_join (workDir_of fid) ''input.mp4'')"
        using tr by auto
      with tr r show ?thesis by (auto simp del: append.simps)
    qed (use ran(9) un f in \<open>simp_all\<close>)
  qed
  with last show ?thesis by blast
qed

theorem unsupported_format_fails_at_transcode_witness:
  "format_option (body_format unsupported_request) = Inr ''xyz''
   \<and> filter is_ExecFile (snd (handler sample_env unsupported_request)) = []
   \<and> ExecShell (ffprobe_command ''/tmp/abc123-audio/input.mp4'')
        \<in> set (snd (handler sample_env unsupported_request))
   \<and> (\<exists>pre w. snd (handler sample_env unsupported_request)
         = pre @ [ExecShell (ffprobe_command ''/tmp/abc123-audio/input.mp4''),
                  LogError (Exn ''Error'' ''Unsupported format: xyz''),
                  Respond 500 (ErrorBody ''Unsupported format: xyz''),
                  Rm w])"
proof -
  have f: "format_option (body_format unsupported_request) = Inr ''xyz''"
    by (simp add: unsupported_request_def sample_request_def format_option_def toLowerCase_def
          lower_char_def char_of_def bit_Suc_0_iff)
  have p: "ExecShell (ffprobe_command ''/tmp/abc123-audio/input.mp4'')
        \<in> set (snd (handler sample_env unsupported_request))"
    by (simp add: eval_defs unsupported_request_def char_of_def bit_Suc_0_iff)
  from unsupported_format_fails_at_transcode
         [OF f _ _ _ surjective_pairing,
          where c = "ffprobe_command ''/tmp/abc123-audio/input.mp4''"] p f
  show ?thesis by simp
qed

section \<open>Validation\<close>

lemma validation_before_effects:
  assumes "format_option (body_format req) = Inr f"
    and "number_option E (body_bitrateK req) 32 = Inr br"
    and "number_option E (body_sampleRate req) 16000 = Inr sr"
    and "number_option E (body_channels req) 1 = Inr ch"
  shows "\<not> truthy (body_fileId req) \<Longrightarrow>
           handler E req = (Value (), [Respond 400 (ErrorBody ''Missing fileId'')])"
    and "truthy (body_fileId req) \<Longrightarrow> bucket_missing E \<Longrightarrow>
           handler E req = (Value (), [Respond 500 (ErrorBody ''Missing BUCKET env var'')])"
  using assms by (simp_all add: handler_def bind_lift emit_def)

text \<open>
  Claim C3 says that every request without a \<open>fileId\<close> is answered with 400, and every
  request with a \<open>fileId\<close> but no bucket with 500, before any side effect. The lemma
  above is that statement for the requests whose options convert without an exception.
  The options are converted before the two checks and outside the \<open>try\<close> block, so a
  body whose \<open>format\<close> is the number 5 makes the handler throw a TypeError: its
  promise is rejected, with no effect and no response, with or without a \<open>fileId\<close>.
\<close>

theorem numeric_format_throws_before_validation:
  "handler E numeric_format_request
     = (Throw (Exn ''TypeError''
                (''((intermediate value) || '' @ quoted ''ogg'' @
                 '').toLowerCase is not a function'')), [])
   \<and> handler E (numeric_format_request\<lparr>body_fileId := JStr ''abc123''\<rparr>)
     = (Throw (Exn ''TypeError''
                (''((intermediate value) || '' @ quoted ''ogg'' @
                 '').toLowerCase is not a function'')), [])"
  by (simp add: handler_def numeric_format_request_def format_option_def bind_lift)

section \<open>How the subprocesses are started\<close>

text \<open>
  Claim C5 says that both subprocesses are started from an argument vector, without a
  shell. \<open>extractAudio\<close> does so (\<open>ExecFile\<close>, see \<open>extractAudio_shape\<close>), but
  \<open>ffprobeJson\<close> calls \<open>execSync\<close> on one command line into which the path of the
  input file, derived from \<open>fileId\<close>, is pasted between double quotes. The sample run
  contains that \<open>ExecShell\<close> effect; and for a \<open>fileId\<close> that contains double quotes
  the text between them, here \<open>;id;\<close>, stands outside the quotes of the command line.
\<close>

theorem probe_command_goes_through_shell:
  "ExecShell (''ffprobe -v error -print_format json -show_format -show_streams '' @
              [CHR 0x22] @ ''/tmp/abc123-audio/input.mp4'' @ [CHR 0x22])
     \<in> set (snd (handler sample_env sample_request))
   \<and> ffprobe_command (path_join (workDir_of quoted_fileId) ''input.mp4'')
     = ''ffprobe -v error -print_format json -show_format -show_streams '' @
       [CHR 0x22] @ ''/tmp/a'' @ [CHR 0x22] @ '';id;'' @ [CHR 0x22] @ ''-audio/input.mp4'' @
       [CHR 0x22]"
  by (simp add: sample_run ffprobe_command_def quoted_fileId_def workDir_of_def path_join_def
        path_normalize_def)

section \<open>The download\<close>

lemma pipe_run_Fulfilled_ended:
  "pipe_run ended written evs = (Fulfilled, out) \<Longrightarrow>
     DestFinish \<in> set evs \<and> (ended \<or> SrcEnd \<in> set evs)"
  by (induction ended written evs rule: pipe_run.induct) (auto split: if_splits)

lemma pipe_run_drained:
  "pipe_run False written (map SrcData cs @ SrcEnd # DestFinish # rest) = (Fulfilled, written @ cs)"
  by (induction cs arbitrary: written) simp_all

lemma pipe_run_source_error:
  "pipe_run False written (map SrcData cs @ SrcError e # rest) = (Unsettled, written @ cs)"
  by (induction cs arbitrary: written) simp_all

lemma pipe_run_dest_error:
  "pipe_run False written (map SrcData cs @ DestError e # rest) = (Rejected e, written @ cs)"
  by (induction cs arbitrary: written) simp_all

text \<open>
  Claim C9 says that the download is drained before \<open>downloadDriveFile\<close> returns and
  that an error of the source stream, like one of the write stream, rejects it. The
  lemmas above are the parts that hold: the promise is fulfilled only after the source
  has ended and the write stream has finished, with every chunk written, and an error of
  the write stream rejects it. An error of the source stream does not: no listener is
  registered on \<open>response.data\<close>, so the promise is never settled; the file keeps the
  chunks written so far, and the handler neither responds nor cleans up.
\<close>

theorem source_error_never_rejects:
  "downloadDriveFile aborted_download_env (JStr ''abc123'') ''/tmp/abc123-audio/input.mp4''
     = (Pending, [DriveGet (JStr ''abc123''),
                  WriteFile ''/tmp/abc123-audio/input.mp4'' [''abc'']])
   \<and> handler aborted_download_env sample_request
     = (Pending, [Mkdir ''/tmp/abc123-audio'', DriveGet (JStr ''abc123''),
                  WriteFile ''/tmp/abc123-audio/input.mp4'' [''abc'']])"
  by (simp add: eval_defs aborted_download_env_def)

section \<open>The duration probe\<close>













section \<open>Numeric options\<close>

lemma positive_or_default: "0 < d \<Longrightarrow> positive_or (Fin d) d = Fin d"
  by (simp add: positive_or_def)

lemma number_option_absent: "number_option E JUndef d = Inr (Fin d)"
  by (simp add: number_option_def)

lemma bad_number_runs_as_absent:
  assumes coerced: "number_option E v d = Inr n"
    and bad: "\<not> (isFinite n \<and> gt0 n)"
  shows "positive_or n d = Fin d
       \<and> (d = 32 \<longrightarrow>
            handler E (req\<lparr>body_bitrateK := v\<rparr>) = handler E (req\<lparr>body_bitrateK := JUndef\<rparr>))
       \<and> (d = 16000 \<longrightarrow>
            handler E (req\<lparr>body_sampleRate := v\<rparr>) = handler E (req\<lparr>body_sampleRate := JUndef\<rparr>))
       \<and> (d = 1 \<longrightarrow>
            handler E (req\<lparr>body_channels := v\<rparr>) = handler E (req\<lparr>body_channels := JUndef\<rparr>))"
proof -
  from bad have dflt: "positive_or n d = Fin d" by (auto simp: positive_or_def)
  have br: "pipeline E fid f n sr ch w ip ext ap = pipeline E fid f (Fin 32) sr ch w ip ext ap"
    if "d = 32" for fid f sr ch w ip ext ap
    using dflt that by (simp add: pipeline_def positive_or_default)
  have sr: "pipeline E fid f br n ch w ip ext ap = pipeline E fid f br (Fin 16000) ch w ip ext ap"
    if "d = 16000" for fid f br ch w ip ext ap
    using dflt that by (simp add: pipeline_def positive_or_default)
  have ch: "pipeline E fid f br sr n w ip ext ap = pipeline E fid f br sr (Fin 1) w ip ext ap"
    if "d = 1" for fid f br sr w ip ext ap
    using dflt that by (simp add: pipeline_def positive_or_default)
  have 1: "handler E (req\<lparr>body_bitrateK := v\<rparr>) = handler E (req\<lparr>body_bitrateK := JUndef\<rparr>)"
    if "d = 32"
    using coerced that by (simp add: handler_def number_option_absent bind_lift br cong: if_cong)
  have 2: "handler E (req\<lparr>body_sampleRate := v\<rparr>) = handler E (req\<lparr>body_sampleRate := JUndef\<rparr>)"
    if "d = 16000"
    using coerced that by (simp add: handler_def number_option_absent bind_lift sr cong: if_cong)
  have 3: "handler E (req\<lparr>body_channels := v\<rparr>) = handler E (req\<lparr>body_channels := JUndef\<rparr>)"
    if "d = 1"
    using coerced that by (simp add: handler_def number_option_absent bind_lift ch cong: if_cong)
  from dflt 1 2 3 show ?thesis by blast
qed

lemma ffmpeg_args_positions:
  assumes "ffmpeg_args fmt \<lparr>inputPath = i, outputPath = out, format = Some f,
             sampleRate = Some sr, channels = Some ch, bitrateK = Some br\<rparr> = Inr args"
  shows "args ! 4 = ''-ac'' \<and> args ! 5 = NumberToString fmt ch
       \<and> args ! 6 = ''-ar'' \<and> args ! 7 = NumberToString fmt sr
       \<and> (f \<noteq> ''wav'' \<longrightarrow> args ! 10 = ''-b:a'' \<and> args ! 11 = NumberToString fmt br @ ''k'')"
  using assms by (auto simp: ffmpeg_args_def Let_def split: if_splits)

lemma transcoder_call:
  assumes run: "handler E req = (r, tr)" and ex: "ExecFile file args \<in> set tr"
  obtains f br sr ch fid where
    "format_option (body_format req) = Inr f"
    "number_option E (body_bitrateK req) 32 = Inr br"
    "number_option E (body_sampleRate req) 16000 = Inr sr"
    "number_option E (body_channels req) 1 = Inr ch"
    "file = ''ffmpeg''"
    "ffmpeg_args (NumberToString_other E)
       \<lparr>inputPath = path_join (workDir_of fid) ''input.mp4'',
        outputPath = path_join (workDir_of fid) (''audio.'' @ audioExt_of f),
        format = Some f, sampleRate = Some (positive_or sr 16000),
        channels = Some (positive_or ch 1), bitrateK = Some (positive_or br 32)\<rparr> = Inr args"
proof -
  from run show thesis
  proof (cases rule: handler_cases)
    case (ran f br sr ch fid r0 tr0)
    from ran(8) show ?thesis
    proof (cases rule: pipeline_cases)
      case (ffmpeg_throws cs args' e)
      with ran(9) ex have "file = ''ffmpeg''" "args' = args" by auto
      with ran(1-4) ffmpeg_throws(1) show ?thesis by (intro that) simp_all
    next
      case (stat_audio_throws cs args' e)
      with ran(9) ex have "file = ''ffmpeg''" "args' = args" by auto
      with ran(1-4) stat_audio_throws(1) show ?thesis by (intro that) simp_all
    next
      case (fileId_throws cs args' e)
      with ran(9) ex have "file = ''ffmpeg''" "args' = args" by auto
      with ran(1-4) fileId_throws(1) show ?thesis by (intro that) simp_all
    next
      case (no_bucket cs args')
      with ran(9) ex have "file = ''ffmpeg''" "args' = args" by auto
      with ran(1-4) no_bucket(1) show ?thesis by (intro that) simp_all
    next
      case (upload_rejects cs args' fid' b e)
      with ran(9) ex have "file = ''ffmpeg''" "args' = args" by auto
      with ran(1-4) upload_rejects(1) show ?thesis by (intro that) simp_all
    next
      case (sign_rejects cs args' fid' b e)
      with ran(9) ex have "file = ''ffmpeg''" "args' = args" by auto
      with ran(1-4) sign_rejects(1) show ?thesis by (intro that) simp_all
    next
      case (success cs args' fid' b n m u)
      with ran(9) ex have "file = ''ffmpeg''" "args' = args" by auto
      with ran(1-4) success(1) show ?thesis by (intro that) simp_all
    qed (use ran(9) ex in auto)
  qed (use ex in simp_all)
qed

lemma defaults_reach_transcoder:
  assumes run: "handler E req = (r, tr)" and ex: "ExecFile file args \<in> set tr"
  shows "(number_option E (body_channels req) 1 = Inr n \<longrightarrow> \<not> (isFinite n \<and> gt0 n) \<longrightarrow>
            args ! 4 = ''-ac'' \<and> args ! 5 = ''1'')
       \<and> (number_option E (body_sampleRate req) 16000 = Inr n \<longrightarrow> \<not> (isFinite n \<and> gt0 n) \<longrightarrow>
            args ! 6 = ''-ar'' \<and> args ! 7 = ''16000'')
       \<and> (number_option E (body_bitrateK req) 32 = Inr n \<longrightarrow> \<not> (isFinite n \<and> gt0 n) \<longrightarrow>
            format_option (body_format req) \<noteq> Inr ''wav'' \<longrightarrow>
            args ! 10 = ''-b:a'' \<and> args ! 11 = ''32k'')"
proof -
  from run ex obtain f br sr ch fid where t:
    "format_option (body_format req) = Inr f"
    "number_option E (body_bitrateK req) 32 = Inr br"
    "number_option E (body_sampleRate req) 16000 = Inr sr"
    "number_option E (body_channels req) 1 = Inr ch"
    "ffmpeg_args (NumberToString_other E)
       \<lparr>inputPath = path_join (workDir_of fid) ''input.mp4'',
        outputPath = path_join (workDir_of fid) (''audio.'' @ audioExt_of f),
        format = Some f, sampleRate = Some (positive_or sr 16000),
        channels = Some (positive_or ch 1), bitrateK = Some (positive_or br 32)\<rparr> = Inr args"
    by (rule transcoder_call)
  note pos = ffmpeg_args_positions [OF t(5)]
  show ?thesis
    using pos t(1-4) by (auto simp: positive_or_def default_numbers_print)
qed

text \<open>
  Claim C4 says that a numeric option that is provided but not a finite number above
  zero, a value that is not numeric included, is replaced by its default before
  transcoding and never makes the request fail. The lemmas above are what holds for an
  option that \<open>Number\<close> converts to some number \<open>n\<close>: when \<open>n\<close> is not finite or not
  above zero, the run is the run of the request without the option, and the arguments
  \<open>ffmpeg\<close> is started with carry the default (\<open>-ac 1\<close>, \<open>-ar 16000\<close>,
  \<open>-b:a 32k\<close>). But the options are converted outside the \<open>try\<close> block and before
  the checks, as the format is: for an object with an own \<open>toString\<close> key the
  conversion throws a TypeError, and the handler's promise is rejected with no response.
\<close>

theorem object_option_throws_before_validation:
  "handler E object_channels_request
     = (Throw (Exn ''TypeError'' ''Cannot convert object to primitive value''), [])"
  by (simp add: handler_def object_channels_request_def sample_request_def format_option_def
        number_option_def bind_lift toLowerCase_def lower_char_def)

section \<open>The format option and letter case\<close>









section \<open>The audio file and its destination key\<close>

lemma split_sep_not_Nil: "split_sep c s \<noteq> []"
  by (induction s) (auto split: list.splits)

lemma split_sep_append: "split_sep c (a @ c # b) = split_sep c a @ split_sep c b"
  by (induction a) (auto simp: split_sep_not_Nil split: list.splits)

lemma split_sep_no_sep: "c \<notin> set b \<Longrightarrow> split_sep c b = [b]"
  by (induction b) auto

lemma normalizeSegments_append:
  "normalizeSegments up st (xs @ ys) = normalizeSegments up (normalizeSegments up st xs) ys"
  by (induction xs arbitrary: st) (auto split: list.splits)

lemma join_sep_snoc:
  "join_sep sep (xs @ [x]) = (if xs = [] then x else join_sep sep xs @ sep @ x)"
  by (induction sep xs rule: join_sep.induct) auto

lemma path_join_basename:
  assumes name: "name \<noteq> []" "CHR ''/'' \<notin> set name" "name \<noteq> ''.''" "name \<noteq> ''..''"
    and dir: "a \<noteq> []" "hd a = CHR ''/''"
  shows "\<exists>d. path_join a name = d @ ''/'' @ name"
proof -
  let ?p = "a @ CHR ''/'' # name"
  let ?st = "normalizeSegments False [] (split_sep CHR ''/'' a)"
  define b where "b = join_sep ''/'' (rev (name # ?st))"
  have segs: "split_sep CHR ''/'' ?p = split_sep CHR ''/'' a @ [name]"
    using name(2) by (simp add: split_sep_append split_sep_no_sep)
  have norm: "normalizeSegments False [] (split_sep CHR ''/'' ?p) = name # ?st"
    using name by (simp add: segs normalizeSegments_append)
  have body: "b = (if ?st = [] then name else join_sep ''/'' (rev ?st) @ ''/'' @ name)"
    by (simp add: b_def join_sep_snoc)
  then have bne: "b \<noteq> []" using name(1) by (simp split: if_splits)
  have "last name \<in> set name" using name(1) by (rule last_in_set)
  with name(2) have "last name \<noteq> CHR ''/''" by metis
  then have l: "last ?p \<noteq> CHR ''/''" using name(1) by simp
  have h: "hd ?p = CHR ''/''" using dir by simp
  have nb: "join_sep ''/'' (rev (normalizeSegments False [] (split_sep CHR ''/'' ?p))) = b"
    by (simp only: norm b_def)
  have "path_normalize ?p = ''/'' @ b"
    using l h bne by (simp add: path_normalize_def Let_def nb)
  moreover have "path_join a name = path_normalize ?p"
    using name(1) dir(1) by (simp add: path_join_def)
  ultimately have "path_join a name = ''/'' @ b" by simp
  with body show ?thesis
    by (cases "?st = []") (auto intro: exI[where x="[]"] exI[where x="''/'' @ join_sep ''/'' (rev ?st)"])
qed

lemma ffmpeg_args_Inr:
  assumes "ffmpeg_args fmt \<lparr>inputPath = i, outputPath = out, format = Some f,
             sampleRate = s, channels = c, bitrateK = b\<rparr> = Inr args"
  shows "last args = out \<and> (f = ''ogg'' \<or> f = ''mp3'' \<or> f = ''wav'')"
  using assms by (auto simp: ffmpeg_args_def Let_def split: if_splits)

lemma audioExt_supported:
  "f = ''ogg'' \<or> f = ''mp3'' \<or> f = ''wav'' \<Longrightarrow> audioExt_of f = f"
  by (auto simp: audioExt_of_def)

lemma audio_path_basename:
  assumes "f = ''ogg'' \<or> f = ''mp3'' \<or> f = ''wav''"
  shows "\<exists>d. path_join (workDir_of fid) (''audio.'' @ f) = d @ ''/audio.'' @ f"
proof -
  have "\<exists>d. path_join (workDir_of fid) (''audio.'' @ f) = d @ ''/'' @ (''audio.'' @ f)"
    using assms by (intro path_join_basename) (auto simp: workDir_of_def)
  then show ?thesis by simp
qed

lemma success_run:
  assumes run: "handler E req = (r, tr)" and ok: "Respond 200 (ResultBody v u m) \<in> set tr"
  obtains f fid args b where
    "format_option (body_format req) = Inr f"
    "f = ''ogg'' \<or> f = ''mp3'' \<or> f = ''wav''"
    "ToString (NumberToString_other E) (body_fileId req) = Inr fid"
    "meta_format m = f"
    "meta_destination m = destination_of fid f"
    "ExecFile ''ffmpeg'' args \<in> set tr"
    "last args = path_join (workDir_of fid) (''audio.'' @ f)"
    "Upload b (path_join (workDir_of fid) (''audio.'' @ f)) (destination_of fid f) \<in> set tr"
proof -
  from run show thesis
  proof (cases rule: handler_cases)
    case (ran f br sr ch fid r0 tr0)
    from ran(8) show ?thesis
    proof (cases rule: pipeline_cases)
      case (success cs args fid' b n k u')
      from success(2) ran(7) have fid: "fid' = fid" by simp
      from ffmpeg_args_Inr [OF success(1)] have sup: "f = ''ogg'' \<or> f = ''mp3'' \<or> f = ''wav''"
        and la: "last args = path_join (workDir_of fid) (''audio.'' @ audioExt_of f)" by simp_all
      from sup have ext: "audioExt_of f = f" by (rule audioExt_supported)
      from success(7,8) ran(9) have tr: "tr = tr0 @ [Rm (workDir_of fid)]" by simp
      from ok tr success(8) have m: "meta_format m = f"
        "meta_destination m = destination_of fid f"
        by (auto simp: fid ext)
      have ex: "ExecFile ''ffmpeg'' args \<in> set tr" using tr success(8) by simp
      have up: "Upload b (path_join (workDir_of fid) (''audio.'' @ f)) (destination_of fid f) \<in> set tr"
        using tr success(8) by (simp add: fid ext)
      from ran(1) sup ran(7) m ex la up show ?thesis by (simp add: ext that)
    qed (use ok ran(9) in auto)
  qed (use ok in simp_all)
qed

lemma wav_run:
  "handler sample_env wav_request =
     (Value (),
      [Mkdir ''/tmp/abc123-audio'',
       DriveGet (JStr ''abc123''),
       WriteFile ''/tmp/abc123-audio/input.mp4'' [''abc'', ''def''],
       Stat ''/tmp/abc123-audio/input.mp4'',
       ExecShell (ffprobe_command ''/tmp/abc123-audio/input.mp4''),
       ExecFile ''ffmpeg''
         [''-y'', ''-i'', ''/tmp/abc123-audio/input.mp4'', ''-vn'', ''-ac'', ''1'', ''-ar'', ''16000'',
          ''-c:a'', ''pcm_s16le'', ''/tmp/abc123-audio/audio.wav''],
       Stat ''/tmp/abc123-audio/audio.wav'',
       Upload ''audio-bucket'' ''/tmp/abc123-audio/audio.wav'' ''audio/abc123.wav'',
       SignUrl ''audio-bucket'' ''audio/abc123.wav'' 3601400,
       Respond 200
         (ResultBody (JStr ''abc123'') ''https://storage.example/audio-bucket/audio/abc123.wav''
            \<lparr>meta_format = ''wav'', inputBytes = 2048, audioBytes = 2048,
             durationSec = Some (Fin (5 / 2)), elapsedMs = 500,
             bucket = Some ''audio-bucket'', meta_destination = ''audio/abc123.wav''\<rparr>),
       Rm ''/tmp/abc123-audio''])"
  by (simp add: eval_defs wav_request_def)

lemma format_option_supported:
  "f = ''ogg'' \<or> f = ''mp3'' \<or> f = ''wav'' \<Longrightarrow> format_option (JStr f) = Inr f"
  by (auto simp: format_option_def toLowerCase_def lower_char_def)

lemma format_option_string:
  "s \<noteq> [] \<Longrightarrow> format_option (JStr s) = Inr (toLowerCase s)"
  by (simp add: format_option_def)

text \<open>
  Claim C7. For each supported format \<open>f\<close> (ogg, mp3, wav), requested as \<open>f\<close>, the
  normalised format and the extension are \<open>f\<close>, the audio file is \<open>audio.f\<close> in the
  working directory, and the destination key is \<open>audio/<fileId>.f\<close>. In every run that
  sends a success response, \<open>meta.format\<close> is the format the request asked for (its
  format string in lower case), it is one of the three, \<open>meta.destination\<close> is
  \<open>audio/<fileId>.<format>\<close>, and the file that \<open>ffmpeg\<close> wrote (its last argument)
  and that was uploaded under that key is named \<open>audio.<format>\<close>. Without a format
  option the format is ogg and the key is \<open>audio/<fileId>.ogg\<close>, as in the earlier
  version of the server.
\<close>

theorem destination_key_template:
  "(f = ''ogg'' \<or> f = ''mp3'' \<or> f = ''wav'' \<longrightarrow>
      format_option (JStr f) = Inr f
      \<and> audioExt_of f = f
      \<and> (\<exists>d. path_join (workDir_of fid) (''audio.'' @ audioExt_of f) = d @ ''/audio.'' @ f)
      \<and> destination_of fid (audioExt_of f) = ''audio/'' @ fid @ ''.'' @ f)
   \<and> (handler E req = (r, tr) \<longrightarrow> Respond 200 (ResultBody v u m) \<in> set tr \<longrightarrow>
        format_option (body_format req) = Inr (meta_format m)
        \<and> (\<forall>s. body_format req = JStr s \<longrightarrow> s \<noteq> [] \<longrightarrow> meta_format m = toLowerCase s)
        \<and> (meta_format m = ''ogg'' \<or> meta_format m = ''mp3'' \<or> meta_format m = ''wav'')
        \<and> (\<exists>fid'. ToString (NumberToString_other E) (body_fileId req) = Inr fid'
              \<and> meta_destination m = ''audio/'' @ fid' @ ''.'' @ meta_format m
              \<and> (\<exists>b d args. ExecFile ''ffmpeg'' args \<in> set tr
                    \<and> last args = d @ ''/audio.'' @ meta_format m
                    \<and> Upload b (d @ ''/audio.'' @ meta_format m) (meta_destination m) \<in> set tr)))
   \<and> format_option JUndef = Inr ''ogg''
   \<and> destination_of fid (audioExt_of ''ogg'') = ''audio/'' @ fid @ ''.ogg''
   \<and> legacy_destination fmt (JStr fid) = Inr (''audio/'' @ fid @ ''.ogg'')"
proof -
  have 1: "f = ''ogg'' \<or> f = ''mp3'' \<or> f = ''wav'' \<longrightarrow>
      format_option (JStr f) = Inr f
      \<and> audioExt_of f = f
      \<and> (\<exists>d. path_join (workDir_of fid) (''audio.'' @ audioExt_of f) = d @ ''/audio.'' @ f)
      \<and> destination_of fid (audioExt_of f) = ''audio/'' @ fid @ ''.'' @ f"
    using audio_path_basename [of f fid] audioExt_supported [of f] format_option_supported [of f]
    by (simp add: destination_of_def)
  have 2: "format_option (body_format req) = Inr (meta_format m)
        \<and> (\<forall>s. body_format req = JStr s \<longrightarrow> s \<noteq> [] \<longrightarrow> meta_format m = toLowerCase s)
        \<and> (meta_format m = ''ogg'' \<or> meta_format m = ''mp3'' \<or> meta_format m = ''wav'')
        \<and> (\<exists>fid'. ToString (NumberToString_other E) (body_fileId req) = Inr fid'
              \<and> meta_destination m = ''audio/'' @ fid' @ ''.'' @ meta_format m
              \<and> (\<exists>b d args. ExecFile ''ffmpeg'' args \<in> set tr
                    \<and> last args = d @ ''/audio.'' @ meta_format m
                    \<and> Upload b (d @ ''/audio.'' @ meta_format m) (meta_destination m) \<in> set tr))"
    if run: "handler E req = (r, tr)" and ok: "Respond 200 (ResultBody v u m) \<in> set tr"
  proof -
    from run ok obtain g fid' args b where s:
      "g = ''ogg'' \<or> g = ''mp3'' \<or> g = ''wav''"
      "ToString (NumberToString_other E) (body_fileId req) = Inr fid'"
      "meta_format m = g"
      "meta_destination m = destination_of fid' g"
      "ExecFile ''ffmpeg'' args \<in> set tr"
      "last args = path_join (workDir_of fid') (''audio.'' @ g)"
      "Upload b (path_join (workDir_of fid') (''audio.'' @ g)) (destination_of fid' g) \<in> set tr"
      and req: "format_option (body_format req) = Inr g"
      by (rule success_run)
    from audio_path_basename [OF s(1)] obtain d where
      d: "path_join (workDir_of fid') (''audio.'' @ g) = d @ ''/audio.'' @ g" by blast
    have "\<exists>b d args. ExecFile ''ffmpeg'' args \<in> set tr
                    \<and> last args = d @ ''/audio.'' @ meta_format m
                    \<and> Upload b (d @ ''/audio.'' @ meta_format m) (meta_destination m) \<in> set tr"
      using s(3,4,5,6,7) d by (intro exI [where x = b] exI [where x = d] exI [where x = args]) simp
    moreover have "meta_destination m = ''audio/'' @ fid' @ ''.'' @ meta_format m"
      using s(3,4) by (simp add: destination_of_def)
    moreover have "format_option (body_format req) = Inr (meta_format m)"
      using req s(3) by simp
    moreover have "\<forall>s. body_format req = JStr s \<longrightarrow> s \<noteq> [] \<longrightarrow> meta_format m = toLowerCase s"
      using req s(3) by (auto simp: format_option_string)
    ultimately show ?thesis using s(1,2,3) by blast
  qed
  have 3: "format_option JUndef = Inr ''ogg''"
    by (simp add: format_option_def toLowerCase_def lower_char_def)
  have 4: "destination_of fid (audioExt_of ''ogg'') = ''audio/'' @ fid @ ''.ogg''"
    by (simp add: destination_of_def audioExt_of_def)
  have 5: "legacy_destination fmt (JStr fid) = Inr (''audio/'' @ fid @ ''.ogg'')"
    by (simp add: legacy_destination_def)
  from 1 2 3 4 5 show ?thesis by blast
qed

theorem destination_key_template_witness:
  "body_format wav_request = JStr ''wav''
   \<and> format_option (JStr ''wav'') = Inr ''wav''
   \<and> audioExt_of ''wav'' = ''wav''
   \<and> destination_of ''abc123'' (audioExt_of ''wav'') = ''audio/abc123.wav''
   \<and> Respond 200 (ResultBody (JStr ''abc123'')
          ''https://storage.example/audio-bucket/audio/abc123.wav''
          \<lparr>meta_format = ''wav'', inputBytes = 2048, audioBytes = 2048,
           durationSec = Some (Fin (5 / 2)), elapsedMs = 500,
           bucket = Some ''audio-bucket'', meta_destination = ''audio/abc123.wav''\<rparr>)
         \<in> set (snd (handler sample_env wav_request))
   \<and> format_option (body_format wav_request) = Inr ''wav''
   \<and> (\<exists>b d args. ExecFile ''ffmpeg'' args \<in> set (snd (handler sample_env wav_request))
          \<and> last args = d @ ''/audio.wav''
          \<and> Upload b (d @ ''/audio.wav'') ''audio/abc123.wav''
                \<in> set (snd (handler sample_env wav_request)))"
proof -
  let ?m = "\<lparr>meta_format = ''wav'', inputBytes = 2048, audioBytes = 2048,
             durationSec = Some (Fin (5 / 2)), elapsedMs = 500,
             bucket = Some ''audio-bucket'', meta_destination = ''audio/abc123.wav''\<rparr>"
  have req: "body_format wav_request = JStr ''wav''"
    by (simp add: wav_request_def)
  have ok: "Respond 200 (ResultBody (JStr ''abc123'')
               ''https://storage.example/audio-bucket/audio/abc123.wav'' ?m)
             \<in> set (snd (handler sample_env wav_request))"
    by (simp add: wav_run)
  have sup: "''wav'' = ''ogg'' \<or> ''wav'' = ''mp3'' \<or> ''wav'' = ''wav''" by simp
  note T = destination_key_template [where f = "''wav''" and fid = "''abc123''",
             THEN conjunct1, THEN mp, OF sup]
  have a0: "format_option (JStr ''wav'') = Inr ''wav''" by (rule T [THEN conjunct1])
  have a: "audioExt_of ''wav'' = ''wav''" by (rule T [THEN conjunct2, THEN conjunct1])
  from T [THEN conjunct2, THEN conjunct2, THEN conjunct2]
  have b: "destination_of ''abc123'' (audioExt_of ''wav'') = ''audio/abc123.wav''" by simp
  note U = destination_key_template [where E = sample_env and req = wav_request,
         THEN conjunct2, THEN conjunct1, THEN mp, THEN mp, OF surjective_pairing ok]
  from U [THEN conjunct1]
  have c0: "format_option (body_format wav_request) = Inr ''wav''" by simp
  from U [THEN conjunct2, THEN conjunct2, THEN conjunct2]
  have c: "\<exists>b d args. ExecFile ''ffmpeg'' args \<in> set (snd (handler sample_env wav_request))
          \<and> last args = d @ ''/audio.wav''
          \<and> Upload b (d @ ''/audio.wav'') ''audio/abc123.wav''
                \<in> set (snd (handler sample_env wav_request))"
    by simp
  from req a0 a b ok c0 c show ?thesis by (intro conjI)
qed

end
